theory Spec2Isabelle
  imports Main
begin

section \<open>Values read from profile documents\<close>

text \<open>
  The dashboard keeps every number as a JavaScript number. The profile data model fixes
  experience points, gold, level and skill scores to be integers, so the model uses
  \<open>int\<close>; a field that a document does not carry is \<open>None\<close>.

  The source reads numbers through \<^verbatim>\<open>value || fallback\<close>: the fallback replaces
  a missing value and also the falsy number 0.
\<close>

definition num_or :: "int option \<Rightarrow> int \<Rightarrow> int" where
  "num_or v fallback =
     (case v of None \<Rightarrow> fallback | Some n \<Rightarrow> if n = 0 then fallback else n)"

text \<open>
  Skill names and mission categories are Korean strings in the source; they are kept as
  their UTF-8 byte sequences.
\<close>

definition skill_literacy :: string where
  \<comment> \<open>munhaeryeok (literacy)\<close>
  "skill_literacy =
     [CHR 0xEB, CHR 0xAC, CHR 0xB8, CHR 0xED, CHR 0x95, CHR 0xB4, CHR 0xEB, CHR 0xA0, CHR 0xA5]"

definition skill_numeracy :: string where
  \<comment> \<open>suriryeok (numeracy)\<close>
  "skill_numeracy =
     [CHR 0xEC, CHR 0x88, CHR 0x98, CHR 0xEB, CHR 0xA6, CHR 0xAC, CHR 0xEB, CHR 0xA0, CHR 0xA5]"

definition skill_creativity :: string where
  \<comment> \<open>changuiryeok (creativity)\<close>
  "skill_creativity =
     [CHR 0xEC, CHR 0xB0, CHR 0xBD, CHR 0xEC, CHR 0x9D, CHR 0x98, CHR 0xEB, CHR 0xA0, CHR 0xA5]"

definition skill_responsibility :: string where
  \<comment> \<open>chaegimgam (responsibility)\<close>
  "skill_responsibility =
     [CHR 0xEC, CHR 0xB1, CHR 0x85, CHR 0xEC, CHR 0x9E, CHR 0x84, CHR 0xEA, CHR 0xB0, CHR 0x90]"

definition skill_problem_solving :: string where
  \<comment> \<open>munje haegyeol neungnyeok (problem solving)\<close>
  "skill_problem_solving =
     [CHR 0xEB, CHR 0xAC, CHR 0xB8, CHR 0xEC, CHR 0xA0, CHR 0x9C, CHR 0x20, CHR 0xED, CHR 0x95, CHR 0xB4, CHR 0xEA, CHR 0xB2, CHR 0xB0, CHR 0x20, CHR 0xEB, CHR 0x8A, CHR 0xA5, CHR 0xEB, CHR 0xA0, CHR 0xA5]"

definition skill_self_directed :: string where
  \<comment> \<open>jagi judo hakseup neungnyeok (self-directed learning)\<close>
  "skill_self_directed =
     [CHR 0xEC, CHR 0x9E, CHR 0x90, CHR 0xEA, CHR 0xB8, CHR 0xB0, CHR 0x20, CHR 0xEC, CHR 0xA3, CHR 0xBC, CHR 0xEB, CHR 0x8F, CHR 0x84, CHR 0x20, CHR 0xED, CHR 0x95, CHR 0x99, CHR 0xEC, CHR 0x8A, CHR 0xB5, CHR 0x20, CHR 0xEB, CHR 0x8A, CHR 0xA5, CHR 0xEB, CHR 0xA0, CHR 0xA5]"

definition type_reading :: string where
  \<comment> \<open>ilgi (reading)\<close>
  "type_reading =
     [CHR 0xEC, CHR 0x9D, CHR 0xBD, CHR 0xEA, CHR 0xB8, CHR 0xB0]"

definition type_writing :: string where
  \<comment> \<open>sseugi (writing)\<close>
  "type_writing =
     [CHR 0xEC, CHR 0x93, CHR 0xB0, CHR 0xEA, CHR 0xB8, CHR 0xB0]"

definition type_math :: string where
  \<comment> \<open>suri (math)\<close>
  "type_math =
     [CHR 0xEC, CHR 0x88, CHR 0x98, CHR 0xEB, CHR 0xA6, CHR 0xAC]"

definition type_problem :: string where
  \<comment> \<open>munjepuri (problem solving)\<close>
  "type_problem =
     [CHR 0xEB, CHR 0xAC, CHR 0xB8, CHR 0xEC, CHR 0xA0, CHR 0x9C, CHR 0xED, CHR 0x92, CHR 0x80, CHR 0xEC, CHR 0x9D, CHR 0xB4]"

section \<open>Profile documents and reward deltas\<close>

text \<open>
  \<open>lastUpdate\<close> is written as the \<^verbatim>\<open>serverTimestamp()\<close> sentinel; the document
  store replaces the sentinel by its own time when the write is committed.
\<close>

datatype fieldtime = ServerTimestamp | Time nat

text \<open>
  A profile document. The fields are the ones \<^verbatim>\<open>login\<close> and
  \<^verbatim>\<open>updateStudentProfile\<close> write; \<open>extra\<close> holds whatever other fields a
  document carries.
\<close>

record profile =
  userId :: "string option"
  role :: "string option"
  displayName :: "string option"
  xp :: "int option"
  gold :: "int option"
  level :: "int option"
  skills :: "(string \<rightharpoonup> int) option"
  lastUpdate :: "fieldtime option"
  isDeleted :: "bool option"
  extra :: "string \<rightharpoonup> string"

text \<open>
  The \<^verbatim>\<open>updates\<close> argument of \<^verbatim>\<open>updateStudentProfile\<close>. The skill increments
  are an object literal at every call site; its keys are visited in order by
  \<^verbatim>\<open>for (const skill in updates.skills)\<close>, so it is an association list (the keys of
  a JavaScript object are pairwise distinct).
\<close>

record updates =
  upd_xp :: "int option"
  upd_gold :: "int option"
  upd_skills :: "(string \<times> int) list option"

section \<open>The progression update\<close>

text \<open>
  Lines 262 to 282 of \<^verbatim>\<open>src/App.js\<close>, the computation between reading the
  source document and writing the result.
\<close>

definition newXP :: "profile \<Rightarrow> updates \<Rightarrow> int" where
  "newXP currentData upd = num_or (xp currentData) 0 + num_or (upd_xp upd) 0"

definition newGold :: "profile \<Rightarrow> updates \<Rightarrow> int" where
  "newGold currentData upd = num_or (gold currentData) 0 + num_or (upd_gold upd) 0"

text \<open>\<^verbatim>\<open>while (newXP >= newLevel * 100) { newLevel++; }\<close>\<close>

function levelLoop :: "int \<Rightarrow> int \<Rightarrow> int" where
  "levelLoop x newLevel = (if x \<ge> newLevel * 100 then levelLoop x (newLevel + 1) else newLevel)"
  by pat_completeness auto
termination
  by (relation "measure (\<lambda>(x, newLevel). nat (x + 1 - newLevel * 100))") auto

declare levelLoop.simps [simp del]

definition newLevel :: "profile \<Rightarrow> updates \<Rightarrow> int" where
  "newLevel currentData upd = levelLoop (newXP currentData upd) (num_or (level currentData) 1)"

text \<open>
  \<^verbatim>\<open>newSkills[skill] = (newSkills[skill] || 0) + (updates.skills[skill] || 0)\<close>
  for every key of \<^verbatim>\<open>updates.skills\<close>.
\<close>

fun addSkills :: "(string \<rightharpoonup> int) \<Rightarrow> (string \<times> int) list \<Rightarrow> (string \<rightharpoonup> int)" where
  "addSkills ns [] = ns"
| "addSkills ns ((skill, inc) # rest) =
     addSkills (ns(skill \<mapsto> num_or (ns skill) 0 + num_or (Some inc) 0)) rest"

definition newSkills :: "profile \<Rightarrow> updates \<Rightarrow> (string \<rightharpoonup> int)" where
  "newSkills currentData upd =
     (let copied = (case skills currentData of None \<Rightarrow> Map.empty | Some s \<Rightarrow> s)
      in case upd_skills upd of None \<Rightarrow> copied | Some incs \<Rightarrow> addSkills copied incs)"

definition updatedProfile :: "profile \<Rightarrow> updates \<Rightarrow> profile" where
  "updatedProfile currentData upd =
     currentData\<lparr>xp := Some (newXP currentData upd),
                  gold := Some (newGold currentData upd),
                  level := Some (newLevel currentData upd),
                  skills := Some (newSkills currentData upd),
                  lastUpdate := Some ServerTimestamp\<rparr>"

text \<open>The score a profile holds for a skill, if any.\<close>

definition skillOf :: "profile \<Rightarrow> string \<Rightarrow> int option" where
  "skillOf p k = (case skills p of None \<Rightarrow> None | Some s \<Rightarrow> s k)"


section \<open>The document store\<close>

text \<open>
  The document database is an external service. The model keeps the documents the
  dashboard reads and writes, one map per path helper of \<^verbatim>\<open>firebasePaths\<close>, and gives
  the client calls the behaviour the source relies on: \<^verbatim>\<open>getDoc\<close> yields the
  document or its absence, \<^verbatim>\<open>setDoc(ref, data, { merge: true })\<close> creates the
  document or overwrites the fields that \<^verbatim>\<open>data\<close> carries and keeps the others,
  \<^verbatim>\<open>updateDoc\<close> fails on a missing document, and any call may be refused
  (network, security rules), which rejects the awaited promise.
\<close>

datatype profile_ref = UserProfile string | PublicStudentProfile string

datatype request =
    GetProfile profile_ref
  | SetProfile profile_ref
  | UpdateMission string
  | UpdateRoutine string string

datatype error =
    Rejected request
  | NotFound request
  | WrongCredentials
  | FetchFailed
  | SyntaxError
  | TypeError
  | ApiCallFailed nat string
  | InvalidStructure

text \<open>The \<^verbatim>\<open>console.error\<close> calls of the modelled functions.\<close>

datatype log_entry =
    CannotUpdateNoSource
  | ErrorUpdatingProfile error
  | ErrorProcessingReward string error
  | RoutineToggleError error
  | LoginFailed error
  | InvalidResponseStructure
  | AttemptFailed nat error

text \<open>
  A mission document, with the fields settlement reads; \<open>missionType\<close> is the field
  \<^verbatim>\<open>type\<close>. The three flags are written as booleans by every function that creates a
  mission.
\<close>

record mission =
  studentId :: string
  missionType :: string
  rewardXp :: "int option"
  rewardGold :: "int option"
  isCompleted :: bool
  isPendingApproval :: bool
  isStudentRewarded :: bool

text \<open>A routine document; \<open>completedDays\<close> maps a calendar date to its checkbox.\<close>

record routine =
  title :: string
  days :: "string list"
  completedDays :: "(string \<rightharpoonup> bool) option"

text \<open>
  The state the modelled functions act on: the documents, by the identifiers their paths
  are built from; the time the store stamps on a write, advanced by every committed
  write; the requests the store refuses; and the lines written to the console.
\<close>

record state =
  userProfile :: "string \<rightharpoonup> profile"
  publicStudentProfile :: "string \<rightharpoonup> profile"
  missionDoc :: "string \<rightharpoonup> mission"
  customRoutineDoc :: "string \<times> string \<rightharpoonup> routine"
  serverTime :: nat
  rejects :: "request \<Rightarrow> bool"
  console :: "log_entry list"

text \<open>How an awaited call of one of the modelled functions ends.\<close>

datatype completion = Returned | Threw error

definition logError :: "state \<Rightarrow> log_entry \<Rightarrow> state" where
  "logError db entry = db\<lparr>console := console db @ [entry]\<rparr>"

definition profileAt :: "state \<Rightarrow> profile_ref \<Rightarrow> profile option" where
  "profileAt db ref =
     (case ref of UserProfile u \<Rightarrow> userProfile db u
                | PublicStudentProfile u \<Rightarrow> publicStudentProfile db u)"

definition getDoc :: "state \<Rightarrow> profile_ref \<Rightarrow> error + profile option" where
  "getDoc db ref =
     (if rejects db (GetProfile ref) then Inl (Rejected (GetProfile ref))
      else Inr (profileAt db ref))"

definition override :: "'a option \<Rightarrow> 'a option \<Rightarrow> 'a option" where
  "override old new = (case new of None \<Rightarrow> old | Some v \<Rightarrow> Some v)"

text \<open>
  The field-level merge: a field of the payload replaces the stored one, a field the
  payload lacks stays, and a nested map (\<open>skills\<close>) is merged key by key, except
  that an empty map in the payload replaces the stored map.
\<close>

definition mergeFields :: "profile \<Rightarrow> profile \<Rightarrow> profile" where
  "mergeFields old payload =
     \<lparr>userId = override (userId old) (userId payload),
      role = override (role old) (role payload),
      displayName = override (displayName old) (displayName payload),
      xp = override (xp old) (xp payload),
      gold = override (gold old) (gold payload),
      level = override (level old) (level payload),
      skills = (case skills payload of None \<Rightarrow> skills old
                | Some new \<Rightarrow>
                    if new = Map.empty then Some new
                    else Some ((case skills old of None \<Rightarrow> Map.empty | Some s \<Rightarrow> s) ++ new)),
      lastUpdate = override (lastUpdate old) (lastUpdate payload),
      isDeleted = override (isDeleted old) (isDeleted payload),
      extra = extra old ++ extra payload\<rparr>"

definition resolveTimestamp :: "nat \<Rightarrow> profile \<Rightarrow> profile" where
  "resolveTimestamp now payload =
     payload\<lparr>lastUpdate :=
       (case lastUpdate payload of Some ServerTimestamp \<Rightarrow> Some (Time now) | t \<Rightarrow> t)\<rparr>"

definition storeProfile :: "state \<Rightarrow> profile_ref \<Rightarrow> profile \<Rightarrow> state" where
  "storeProfile db ref p =
     (case ref of
        UserProfile u \<Rightarrow> db\<lparr>userProfile := (userProfile db)(u \<mapsto> p)\<rparr>
      | PublicStudentProfile u \<Rightarrow> db\<lparr>publicStudentProfile := (publicStudentProfile db)(u \<mapsto> p)\<rparr>)"

definition setDoc_merge :: "state \<Rightarrow> profile_ref \<Rightarrow> profile \<Rightarrow> error + state" where
  "setDoc_merge db ref payload =
     (if rejects db (SetProfile ref) then Inl (Rejected (SetProfile ref))
      else
        let resolved = resolveTimestamp (serverTime db) payload;
            written = (case profileAt db ref of None \<Rightarrow> resolved
                       | Some old \<Rightarrow> mergeFields old resolved)
        in Inr ((storeProfile db ref written)\<lparr>serverTime := serverTime db + 1\<rparr>))"

definition updateDoc_mission :: "state \<Rightarrow> string \<Rightarrow> (mission \<Rightarrow> mission) \<Rightarrow> error + state" where
  "updateDoc_mission db missionId change =
     (if rejects db (UpdateMission missionId) then Inl (Rejected (UpdateMission missionId))
      else case missionDoc db missionId of
             None \<Rightarrow> Inl (NotFound (UpdateMission missionId))
           | Some m \<Rightarrow>
               Inr (db\<lparr>missionDoc := (missionDoc db)(missionId \<mapsto> change m),
                       serverTime := serverTime db + 1\<rparr>))"

text \<open>\<^verbatim>\<open>updateDoc(ref, { [`completedDays.${date}`]: checked })\<close>: one key of the nested map.\<close>

definition updateDoc_routine :: "state \<Rightarrow> string \<Rightarrow> string \<Rightarrow> string \<Rightarrow> bool \<Rightarrow> error + state" where
  "updateDoc_routine db uid routineId date checked =
     (if rejects db (UpdateRoutine uid routineId) then Inl (Rejected (UpdateRoutine uid routineId))
      else case customRoutineDoc db (uid, routineId) of
             None \<Rightarrow> Inl (NotFound (UpdateRoutine uid routineId))
           | Some r \<Rightarrow>
               Inr (db\<lparr>customRoutineDoc := (customRoutineDoc db)((uid, routineId) \<mapsto>
                          r\<lparr>completedDays :=
                              Some ((case completedDays r of None \<Rightarrow> Map.empty | Some d \<Rightarrow> d)
                                    (date \<mapsto> checked))\<rparr>),
                       serverTime := serverTime db + 1\<rparr>))"

section \<open>updateStudentProfile\<close>

text \<open>
  Lines 249 to 292. Every awaited call sits inside the one \<^verbatim>\<open>try\<close>; the
  \<^verbatim>\<open>catch\<close> logs and does not rethrow, so a refused call ends the function with the
  writes committed so far.
\<close>

definition updateStudentProfile ::
  "state \<Rightarrow> string \<Rightarrow> updates \<Rightarrow> string \<Rightarrow> completion \<times> state" where
  "updateStudentProfile db userIdToUpdate upd updaterId =
     (let studentDocRef = UserProfile userIdToUpdate;
          publicStudentProfileRef = PublicStudentProfile userIdToUpdate;
          docToReadRef = (if userIdToUpdate = updaterId then studentDocRef
                          else publicStudentProfileRef)
      in case getDoc db docToReadRef of
           Inl e \<Rightarrow> (Returned, logError db (ErrorUpdatingProfile e))
         | Inr None \<Rightarrow> (Returned, logError db CannotUpdateNoSource)
         | Inr (Some currentData) \<Rightarrow>
             (case setDoc_merge db publicStudentProfileRef (updatedProfile currentData upd) of
                Inl e \<Rightarrow> (Returned, logError db (ErrorUpdatingProfile e))
              | Inr db1 \<Rightarrow>
                  if userIdToUpdate = updaterId then
                    (case setDoc_merge db1 studentDocRef (updatedProfile currentData upd) of
                       Inl e \<Rightarrow> (Returned, logError db1 (ErrorUpdatingProfile e))
                     | Inr db2 \<Rightarrow> (Returned, db2))
                  else (Returned, db1)))"

section \<open>Mission reward settlement\<close>

text \<open>
  Lines 334 to 355. \<open>uid\<close> is the \<^verbatim>\<open>userId\<close> of the component, which the
  enclosing effect has checked to be set, and \<^verbatim>\<open>dailyMissions\<close> is the component's
  copy of the student's mission documents, each paired with its document id.
\<close>

definition skillUpdates :: "string \<Rightarrow> (string \<times> int) list" where
  "skillUpdates mType =
     [(skill_responsibility, 5)] @
     (if mType = type_reading \<or> mType = type_writing then [(skill_literacy, 10)]
      else if mType = type_math \<or> mType = type_problem then [(skill_numeracy, 10)]
      else [])"

definition missionUpdates :: "mission \<Rightarrow> updates" where
  "missionUpdates m =
     \<lparr>upd_xp = rewardXp m, upd_gold = rewardGold m,
      upd_skills = Some (skillUpdates (missionType m))\<rparr>"

fun rewardEach :: "state \<Rightarrow> string \<Rightarrow> (string \<times> mission) list \<Rightarrow> state" where
  "rewardEach db uid [] = db"
| "rewardEach db uid ((missionId, m) # rest) =
     (let (ended, db1) = updateStudentProfile db uid (missionUpdates m) uid
      in (case ended of
            Threw e \<Rightarrow> rewardEach (logError db1 (ErrorProcessingReward missionId e)) uid rest
          | Returned \<Rightarrow>
              (case updateDoc_mission db1 missionId (\<lambda>d. d\<lparr>isStudentRewarded := True\<rparr>) of
                 Inl e \<Rightarrow> rewardEach (logError db1 (ErrorProcessingReward missionId e)) uid rest
               | Inr db2 \<Rightarrow> rewardEach db2 uid rest)))"

definition missionsToReward :: "(string \<times> mission) list \<Rightarrow> (string \<times> mission) list" where
  "missionsToReward dailyMissions =
     filter (\<lambda>(missionId, m). isCompleted m \<and> \<not> isStudentRewarded m) dailyMissions"

definition processRewards ::
  "state \<Rightarrow> string \<Rightarrow> (string \<times> mission) list \<Rightarrow> completion \<times> state" where
  "processRewards db uid dailyMissions =
     (if length (missionsToReward dailyMissions) = 0 then (Returned, db)
      else (Returned, rewardEach db uid (missionsToReward dailyMissions)))"

text \<open>
  What the mission listener hands to the component after a write: the stored state of
  the same documents.
\<close>

definition refreshMissions :: "state \<Rightarrow> (string \<times> mission) list \<Rightarrow> (string \<times> mission) list" where
  "refreshMissions db dailyMissions =
     List.map_filter (\<lambda>(missionId, m). map_option (Pair missionId) (missionDoc db missionId))
       dailyMissions"


section \<open>Routine completion toggle\<close>

text \<open>
  Lines 431 to 439. \<open>uid\<close> is the signed-in user of the component (absent or empty
  makes the handler return at once), \<open>todayDateString\<close> the calendar date of the
  render, and the routine is the component's copy, paired with its document id.
\<close>

definition routineReward :: updates where
  "routineReward =
     \<lparr>upd_xp = None, upd_gold = None,
      upd_skills = Some [(skill_self_directed, 10), (skill_responsibility, 5)]\<rparr>"

definition wasCompleted :: "routine \<Rightarrow> string \<Rightarrow> bool" where
  "wasCompleted r date =
     (case completedDays r of None \<Rightarrow> False | Some d \<Rightarrow> d date = Some True)"

definition handleToggleTodaysRoutineCompletion ::
  "state \<Rightarrow> string option \<Rightarrow> string \<Rightarrow> string \<times> routine \<Rightarrow> bool \<Rightarrow> completion \<times> state" where
  "handleToggleTodaysRoutineCompletion db uid todayDateString routine isNowChecked =
     (case uid of
        None \<Rightarrow> (Returned, db)
      | Some u \<Rightarrow>
          if u = [] then (Returned, db)
          else
            (let routineId = fst routine;
                 wasCompletedToday = wasCompleted (snd routine) todayDateString
             in (case updateDoc_routine db u routineId todayDateString isNowChecked of
                   Inl e \<Rightarrow> (Returned, logError db (RoutineToggleError e))
                 | Inr db1 \<Rightarrow>
                     if isNowChecked \<and> \<not> wasCompletedToday then
                       (let (ended, db2) = updateStudentProfile db1 u routineReward u
                        in (case ended of
                              Threw e \<Rightarrow> (Returned, logError db2 (RoutineToggleError e))
                            | Returned \<Rightarrow> (Returned, db2)))
                     else (Returned, db1))))"

text \<open>
  A run of checkbox changes on one routine. Between two changes the routine listener
  replaces the component's copy by the stored document.
\<close>

fun toggleAll :: "state \<Rightarrow> string \<Rightarrow> string \<Rightarrow> string \<Rightarrow> bool list \<Rightarrow> state" where
  "toggleAll db u date routineId [] = db"
| "toggleAll db u date routineId (checked # rest) =
     (case customRoutineDoc db (u, routineId) of
        None \<Rightarrow> db
      | Some r \<Rightarrow>
          toggleAll (snd (handleToggleTodaysRoutineCompletion db (Some u) date (routineId, r) checked))
            u date routineId rest)"

section \<open>Login\<close>

text \<open>The account tables of lines 27 to 32.\<close>

definition kim_daesu :: string where
  "kim_daesu =
     [CHR 0xEA, CHR 0xB9, CHR 0x80, CHR 0xEB, CHR 0x8C, CHR 0x80, CHR 0xEC, CHR 0x88, CHR 0x98]"

definition kim_juhan :: string where
  "kim_juhan =
     [CHR 0xEA, CHR 0xB9, CHR 0x80, CHR 0xEC, CHR 0xA3, CHR 0xBC, CHR 0xED, CHR 0x95, CHR 0x9C]"

definition kim_chayeong :: string where
  "kim_chayeong =
     [CHR 0xEA, CHR 0xB9, CHR 0x80, CHR 0xEC, CHR 0xB0, CHR 0xA8, CHR 0xEC, CHR 0x98, CHR 0x81]"

definition kim_taerin :: string where
  "kim_taerin =
     [CHR 0xEA, CHR 0xB9, CHR 0x80, CHR 0xED, CHR 0x83, CHR 0x9C, CHR 0xEB, CHR 0xA6, CHR 0xB0]"

definition kim_hyeji :: string where
  "kim_hyeji =
     [CHR 0xEA, CHR 0xB9, CHR 0x80, CHR 0xED, CHR 0x98, CHR 0x9C, CHR 0xEC, CHR 0xA7, CHR 0x80]"

definition an_junhui :: string where
  "an_junhui =
     [CHR 0xEC, CHR 0x95, CHR 0x88, CHR 0xEC, CHR 0xA4, CHR 0x80, CHR 0xED, CHR 0x9D, CHR 0xAC]"

definition in_seonu :: string where
  "in_seonu =
     [CHR 0xEC, CHR 0x9D, CHR 0xB8, CHR 0xEC, CHR 0x84, CHR 0xA0, CHR 0xEC, CHR 0x9A, CHR 0xB0]"

definition jeong_gun :: string where
  "jeong_gun =
     [CHR 0xEC, CHR 0xA0, CHR 0x95, CHR 0xEA, CHR 0xB5, CHR 0xB0]"

definition jeong_yui :: string where
  "jeong_yui =
     [CHR 0xEC, CHR 0xA0, CHR 0x95, CHR 0xEC, CHR 0x9C, CHR 0xA0, CHR 0xEC, CHR 0x9D, CHR 0xB4]"

definition choe_jieum :: string where
  "choe_jieum =
     [CHR 0xEC, CHR 0xB5, CHR 0x9C, CHR 0xEC, CHR 0xA7, CHR 0x80, CHR 0xEC, CHR 0x9D, CHR 0x8C]"

definition bak_cho :: string where
  "bak_cho =
     [CHR 0xEB, CHR 0xB0, CHR 0x95, CHR 0xEC, CHR 0xB4, CHR 0x88]"

definition gyosa :: string where
  \<comment> \<open>the teacher account\<close>
  "gyosa = [CHR 0xEA, CHR 0xB5, CHR 0x90, CHR 0xEC, CHR 0x82, CHR 0xAC]"

definition studentAccounts :: "(string \<times> string) list" where
  "studentAccounts =
     [(kim_daesu, ''1024''),
      (kim_juhan, ''0623''),
      (kim_chayeong, ''0630''),
      (kim_taerin, ''0609''),
      (kim_hyeji, ''1029''),
      (an_junhui, ''1207''),
      (in_seonu, ''1010''),
      (jeong_gun, ''0420''),
      (jeong_yui, ''0609''),
      (choe_jieum, ''0820''),
      (bak_cho, ''1022'')]"

definition teacherAccounts :: "(string \<times> string) list" where
  "teacherAccounts = [(gyosa, ''5555'')]"

definition initialSkills :: "string \<rightharpoonup> int" where
  "initialSkills =
     [skill_literacy \<mapsto> 0, skill_numeracy \<mapsto> 0, skill_creativity \<mapsto> 0,
      skill_responsibility \<mapsto> 0, skill_problem_solving \<mapsto> 0, skill_self_directed \<mapsto> 0]"

definition userProfileData :: "string \<Rightarrow> string \<Rightarrow> string \<Rightarrow> profile" where
  "userProfileData uid r inputID =
     \<lparr>userId = Some uid, role = Some r, displayName = Some inputID,
      xp = Some 0, gold = Some 0, level = Some 1, skills = Some initialSkills,
      lastUpdate = None, isDeleted = None, extra = Map.empty\<rparr>"

text \<open>
  The object \<^verbatim>\<open>login\<close> returns: \<^verbatim>\<open>{ success: true, role }\<close>, or
  \<^verbatim>\<open>{ success: false, error }\<close> with the fixed text of the readiness check or the
  \<^verbatim>\<open>message\<close> of the error caught.
\<close>

datatype failure_text = FirebaseNotReady | MessageOf error

datatype login_result = Success string | Failure failure_text

definition decideRole :: "string \<Rightarrow> string \<Rightarrow> error + string" where
  "decideRole inputID inputPassword =
     (if map_of studentAccounts inputID = Some inputPassword then Inr ''student''
      else if map_of teacherAccounts inputID = Some inputPassword then Inr ''teacher''
      else Inl WrongCredentials)"

text \<open>
  Lines 109 to 141. \<open>currentUser\<close> is the uid of \<^verbatim>\<open>auth.currentUser\<close>, absent
  before the anonymous sign-in has completed.
\<close>

definition login ::
  "state \<Rightarrow> string option \<Rightarrow> string \<Rightarrow> string \<Rightarrow> login_result \<times> state" where
  "login db currentUser inputID inputPassword =
     (case currentUser of
        None \<Rightarrow> (Failure FirebaseNotReady, db)
      | Some uid \<Rightarrow>
          (case decideRole inputID inputPassword of
             Inl e \<Rightarrow> (Failure (MessageOf e), logError db (LoginFailed e))
           | Inr r \<Rightarrow>
               (case setDoc_merge db (UserProfile uid) (userProfileData uid r inputID) of
                  Inl e \<Rightarrow> (Failure (MessageOf e), logError db (LoginFailed e))
                | Inr db1 \<Rightarrow>
                    if r = ''student'' then
                      (case setDoc_merge db1 (PublicStudentProfile uid)
                              ((userProfileData uid r inputID)
                                 \<lparr>lastUpdate := Some ServerTimestamp, isDeleted := Some False\<rparr>) of
                         Inl e \<Rightarrow> (Failure (MessageOf e), logError db1 (LoginFailed e))
                       | Inr db2 \<Rightarrow> (Success r, db2))
                    else (Success r, db1))))"

section \<open>The retrying call to the generation endpoint\<close>

text \<open>
  Lines 161 to 193. What one \<^verbatim>\<open>fetch\<close> brings back: a rejection, or a response
  with its \<^verbatim>\<open>ok\<close> flag, its status and a body. Of a body that parses as a JSON
  object the function reads two places, \<^verbatim>\<open>error?.message\<close> and
  \<^verbatim>\<open>candidates?.[0]?.content?.parts?.[0]?.text\<close>.
\<close>

datatype body =
    Unparseable
  | JsonNull
  | JsonObject (error_message: "string option") (candidate_text: "string option")

datatype fetched = NetworkFailure | Response bool nat body

datatype event = Fetch nat | ConsoleError log_entry | Timeout nat

text \<open>The body of the \<^verbatim>\<open>try\<close>: the value returned or the error thrown, with what it logs.\<close>

definition attempt :: "fetched \<Rightarrow> (error + string) \<times> event list" where
  "attempt f =
     (case f of
        NetworkFailure \<Rightarrow> (Inl FetchFailed, [])
      | Response ok status b \<Rightarrow>
          if \<not> ok then
            (case b of
               Unparseable \<Rightarrow> (Inl SyntaxError, [])
             | JsonNull \<Rightarrow> (Inl TypeError, [])
             | JsonObject msg txt \<Rightarrow>
                 (Inl (ApiCallFailed status
                        (case msg of None \<Rightarrow> ''Unknown error''
                         | Some s \<Rightarrow> if s = [] then ''Unknown error'' else s)), []))
          else
            (case b of
               Unparseable \<Rightarrow> (Inl SyntaxError, [])
             | JsonNull \<Rightarrow> (Inl TypeError, [])
             | JsonObject msg txt \<Rightarrow>
                 (case txt of
                    None \<Rightarrow> (Inl InvalidStructure, [ConsoleError InvalidResponseStructure])
                  | Some t \<Rightarrow>
                      if t = [] then (Inl InvalidStructure, [ConsoleError InvalidResponseStructure])
                      else (Inr t, []))))"

text \<open>
  The \<^verbatim>\<open>for\<close> loop. \<open>fetch i\<close> is what the endpoint answers to the call of
  iteration \<open>i\<close>; the trace records the calls, the log lines and the timeouts awaited.
  The result \<open>Inr None\<close> is the \<^verbatim>\<open>return null\<close> after the loop.
\<close>

function backoffLoop ::
  "(nat \<Rightarrow> fetched) \<Rightarrow> nat \<Rightarrow> nat \<Rightarrow> nat \<Rightarrow> event list \<Rightarrow> (error + string option) \<times> event list" where
  "backoffLoop fetch retries i delay trace =
     (if i < retries then
        (case attempt (fetch i) of
           (Inr t, logged) \<Rightarrow> (Inr (Some t), trace @ [Fetch i] @ logged)
         | (Inl e, logged) \<Rightarrow>
             if i < retries - 1 then
               backoffLoop fetch retries (i + 1) (delay * 2)
                 (trace @ [Fetch i] @ logged @ [ConsoleError (AttemptFailed (i + 1) e), Timeout delay])
             else (Inl e, trace @ [Fetch i] @ logged @ [ConsoleError (AttemptFailed (i + 1) e)]))
      else (Inr None, trace))"
  by pat_completeness auto
termination
  by (relation "measure (\<lambda>(fetch, retries, i, delay, trace). retries - i)") auto

declare backoffLoop.simps [simp del]

definition callGeminiAPIWithExponentialBackoff ::
  "(nat \<Rightarrow> fetched) \<Rightarrow> (error + string option) \<times> event list" where
  "callGeminiAPIWithExponentialBackoff fetch = backoffLoop fetch 3 0 1000 []"

definition fetches :: "event list \<Rightarrow> nat list" where
  "fetches trace = concat (map (\<lambda>ev. case ev of Fetch i \<Rightarrow> [i] | _ \<Rightarrow> []) trace)"

definition timeouts :: "event list \<Rightarrow> nat list" where
  "timeouts trace = concat (map (\<lambda>ev. case ev of Timeout d \<Rightarrow> [d] | _ \<Rightarrow> []) trace)"


section \<open>Concrete documents\<close>

text \<open>An empty profile document, an empty delta and an empty store, to build examples on.\<close>

definition noFields :: profile where
  "noFields =
     \<lparr>userId = None, role = None, displayName = None, xp = None, gold = None, level = None,
      skills = None, lastUpdate = None, isDeleted = None, extra = Map.empty\<rparr>"

definition noUpdates :: updates where
  "noUpdates = \<lparr>upd_xp = None, upd_gold = None, upd_skills = None\<rparr>"

definition emptyStore :: state where
  "emptyStore =
     \<lparr>userProfile = Map.empty, publicStudentProfile = Map.empty, missionDoc = Map.empty,
      customRoutineDoc = Map.empty, serverTime = 0, rejects = (\<lambda>r. False), console = []\<rparr>"

text \<open>A store holding one student, with the private profile and its public mirror.\<close>

definition studentDoc :: profile where
  "studentDoc =
     noFields\<lparr>userId := Some ''s1'', role := Some ''student'', xp := Some 95, gold := Some 0,
              level := Some 1, skills := Some initialSkills\<rparr>"

definition classStore :: state where
  "classStore =
     emptyStore\<lparr>userProfile := [''s1'' \<mapsto> studentDoc],
                publicStudentProfile := [''s1'' \<mapsto> studentDoc\<lparr>isDeleted := Some False\<rparr>]\<rparr>"

text \<open>
  Three missions of that student: a completed reading mission still to be settled, a
  mission not completed yet, and a completed math mission settled before.
\<close>

definition readingMission :: mission where
  "readingMission =
     \<lparr>studentId = ''s1'', missionType = type_reading, rewardXp = Some 20, rewardGold = Some 5,
      isCompleted = True, isPendingApproval = False, isStudentRewarded = False\<rparr>"

definition openMission :: mission where
  "openMission =
     \<lparr>studentId = ''s1'', missionType = type_problem, rewardXp = Some 30, rewardGold = Some 8,
      isCompleted = False, isPendingApproval = True, isStudentRewarded = False\<rparr>"

definition settledMission :: mission where
  "settledMission =
     \<lparr>studentId = ''s1'', missionType = type_math, rewardXp = Some 15, rewardGold = Some 2,
      isCompleted = True, isPendingApproval = False, isStudentRewarded = True\<rparr>"

definition dailyMissions1 :: "(string \<times> mission) list" where
  "dailyMissions1 = [(''m1'', readingMission), (''m2'', openMission), (''m3'', settledMission)]"

definition missionStore :: state where
  "missionStore = classStore\<lparr>missionDoc := map_of dailyMissions1\<rparr>"

text \<open>A routine of that student with no day completed so far.\<close>

definition readingRoutine :: routine where
  "readingRoutine = \<lparr>title = ''reading'', days = [], completedDays = None\<rparr>"

definition routineStore :: state where
  "routineStore = classStore\<lparr>customRoutineDoc := [(''s1'', ''r1'') \<mapsto> readingRoutine]\<rparr>"

text \<open>
  Two endpoints: one answers status 500 twice and then with a text, the other answers
  status 500 to every call.
\<close>

definition failsTwice :: "nat \<Rightarrow> fetched" where
  "failsTwice i =
     (if i < 2 then Response False 500 (JsonObject None None)
      else Response True 200 (JsonObject None (Some ''well done'')))"

definition alwaysFails :: "nat \<Rightarrow> fetched" where
  "alwaysFails i = Response False 500 (JsonObject (Some ''overloaded'') None)"


section \<open>Properties of the progression update\<close>

lemma num_or_zero [simp]: "num_or v 0 = (case v of None \<Rightarrow> 0 | Some n \<Rightarrow> n)"
  by (simp add: num_or_def split: option.splits)

lemma levelLoop_ge: "l \<le> levelLoop x l"
proof (induction x l rule: levelLoop.induct)
  case (1 x l)
  then show ?case by (subst levelLoop.simps) auto
qed

lemma levelLoop_stops: "x < levelLoop x l * 100"
proof (induction x l rule: levelLoop.induct)
  case (1 x l)
  then show ?case by (subst levelLoop.simps) auto
qed

lemma levelLoop_passed: "l \<le> k \<Longrightarrow> k < levelLoop x l \<Longrightarrow> k * 100 \<le> x"
proof (induction x l rule: levelLoop.induct)
  case (1 x l)
  show ?case
  proof (cases "x \<ge> l * 100")
    case True
    with "1.prems" have "k < levelLoop x (l + 1)" by (subst (asm) levelLoop.simps) simp
    show ?thesis
    proof (cases "k = l")
      case True
      with \<open>x \<ge> l * 100\<close> show ?thesis by simp
    next
      case False
      with "1.prems" have "l + 1 \<le> k" by simp
      from "1.IH"[OF True this \<open>k < levelLoop x (l + 1)\<close>] show ?thesis .
    qed
  next
    case False
    with "1.prems" show ?thesis by (subst (asm) levelLoop.simps) simp
  qed
qed

lemma addSkills_other: "k \<notin> fst ` set incs \<Longrightarrow> addSkills ns incs k = ns k"
  by (induction ns incs rule: addSkills.induct) auto

lemma addSkills_key:
  "distinct (map fst incs) \<Longrightarrow> (k, inc) \<in> set incs \<Longrightarrow>
   addSkills ns incs k = Some ((case ns k of None \<Rightarrow> 0 | Some v \<Rightarrow> v) + inc)"
proof (induction ns incs rule: addSkills.induct)
  case (1 ns)
  then show ?case by simp
next
  case (2 ns skill i rest)
  show ?case
  proof (cases "(k, inc) = (skill, i)")
    case True
    with "2.prems" have "k \<notin> fst ` set rest" by auto
    with True show ?thesis by (simp add: addSkills_other)
  next
    case False
    with "2.prems" have in_rest: "(k, inc) \<in> set rest" and "distinct (map fst rest)" by auto
    with "2.prems" have "k \<noteq> skill" by (auto simp: image_iff)
    let ?ns = "ns(skill \<mapsto> num_or (ns skill) 0 + num_or (Some i) 0)"
    from \<open>k \<noteq> skill\<close> have same: "?ns k = ns k" by simp
    have "addSkills ns ((skill, i) # rest) k = addSkills ?ns rest k" by (simp only: addSkills.simps)
    also have "\<dots> = Some ((case ?ns k of None \<Rightarrow> 0 | Some v \<Rightarrow> v) + inc)"
      by (rule "2.IH"[OF \<open>distinct (map fst rest)\<close> in_rest])
    finally show ?thesis by (simp only: same)
  qed
qed

lemma addSkills_mono:
  "\<forall>(k, i) \<in> set incs. 0 \<le> i \<Longrightarrow> ns k = Some v \<Longrightarrow>
   \<exists>v'. addSkills ns incs k = Some v' \<and> v \<le> v'"
proof (induction ns incs arbitrary: v rule: addSkills.induct)
  case (1 ns)
  then show ?case by simp
next
  case (2 ns skill i rest)
  from "2.prems" have nonneg: "\<forall>(k, i) \<in> set rest. 0 \<le> i" and "0 \<le> i" by auto
  show ?case
  proof (cases "k = skill")
    case True
    let ?ns = "ns(skill \<mapsto> num_or (ns skill) 0 + num_or (Some i) 0)"
    from True "2.prems" have "?ns k = Some (v + i)" by simp
    from "2.IH"[OF nonneg this] obtain v' where
      "addSkills ?ns rest k = Some v'" and "v + i \<le> v'" by blast
    with \<open>0 \<le> i\<close> have "addSkills ns ((skill, i) # rest) k = Some v' \<and> v \<le> v'"
      by (simp only: addSkills.simps) simp
    then show ?thesis by blast
  next
    case False
    let ?ns = "ns(skill \<mapsto> num_or (ns skill) 0 + num_or (Some i) 0)"
    from False "2.prems" have "?ns k = Some v" by simp
    from "2.IH"[OF nonneg this] show ?thesis by (simp only: addSkills.simps)
  qed
qed

lemma addSkills_dom: "ns k \<noteq> None \<Longrightarrow> addSkills ns incs k \<noteq> None"
  by (induction ns incs rule: addSkills.induct) auto

lemma map_add_addSkills: "ns ++ addSkills ns incs = addSkills ns incs"
proof
  fix k
  show "(ns ++ addSkills ns incs) k = addSkills ns incs k"
    using addSkills_dom[of ns k incs] by (cases "ns k") (auto simp: map_add_def split: option.splits)
qed


lemma skillOf_updatedProfile:
  "skillOf (updatedProfile p u) k = newSkills p u k"
  by (simp add: skillOf_def updatedProfile_def)

lemma newSkills_start:
  "newSkills p u = addSkills (case skills p of None \<Rightarrow> Map.empty | Some s \<Rightarrow> s)
                     (case upd_skills u of None \<Rightarrow> [] | Some incs \<Rightarrow> incs)"
  by (simp add: newSkills_def Let_def split: option.splits)

lemma copied_skill:
  "(case skills p of None \<Rightarrow> Map.empty | Some s \<Rightarrow> s) k = skillOf p k"
  by (simp add: skillOf_def split: option.splits)


section \<open>Properties of the store operations\<close>

lemma override_same [simp]: "override v v = v"
  by (simp add: override_def split: option.splits)

lemma override_Some [simp]: "override old (Some v) = Some v"
  by (simp add: override_def)

lemma override_None [simp]: "override old None = old"
  by (simp add: override_def)

lemma mergeFields_own_update:
  "mergeFields p (resolveTimestamp t (updatedProfile p u)) = resolveTimestamp t (updatedProfile p u)"
proof -
  have "extra p ++ extra p = extra p"
    by (rule ext) (simp add: map_add_def split: option.splits)
  then show ?thesis
    by (cases p) (simp add: mergeFields_def resolveTimestamp_def updatedProfile_def newSkills_start
        map_add_addSkills)
qed

lemma updateStudentProfile_returns: "fst (updateStudentProfile db u upd a) = Returned"
  by (simp add: updateStudentProfile_def Let_def split: sum.splits option.splits)

lemma setDoc_merge_keeps:
  "setDoc_merge db ref payload = Inr db' \<Longrightarrow>
   rejects db' = rejects db \<and> missionDoc db' = missionDoc db \<and>
   customRoutineDoc db' = customRoutineDoc db \<and> console db' = console db"
  by (auto simp: setDoc_merge_def storeProfile_def Let_def split: if_splits profile_ref.splits)

lemma updateStudentProfile_keeps:
  "rejects (snd (updateStudentProfile db u upd a)) = rejects db \<and>
   missionDoc (snd (updateStudentProfile db u upd a)) = missionDoc db \<and>
   customRoutineDoc (snd (updateStudentProfile db u upd a)) = customRoutineDoc db"
  by (auto simp: updateStudentProfile_def Let_def logError_def dest!: setDoc_merge_keeps
      split: sum.splits option.splits)

text \<open>The successful update of a profile by its owner, in full.\<close>

lemma updateStudentProfile_owner:
  assumes "userProfile db u = Some cur"
      and "\<not> rejects db (GetProfile (UserProfile u))"
      and "\<not> rejects db (SetProfile (PublicStudentProfile u))"
      and "\<not> rejects db (SetProfile (UserProfile u))"
  shows "updateStudentProfile db u upd u =
         (Returned,
          db\<lparr>publicStudentProfile := (publicStudentProfile db)(u \<mapsto>
                (case publicStudentProfile db u of
                   None \<Rightarrow> resolveTimestamp (serverTime db) (updatedProfile cur upd)
                 | Some old \<Rightarrow> mergeFields old (resolveTimestamp (serverTime db) (updatedProfile cur upd)))),
              userProfile := (userProfile db)(u \<mapsto>
                resolveTimestamp (serverTime db + 1) (updatedProfile cur upd)),
              serverTime := serverTime db + 2\<rparr>)"
  using assms
  by (simp add: updateStudentProfile_def getDoc_def setDoc_merge_def profileAt_def
      storeProfile_def Let_def mergeFields_own_update)

lemma updateStudentProfile_other:
  assumes "a \<noteq> u"
      and "publicStudentProfile db u = Some cur"
      and "\<not> rejects db (GetProfile (PublicStudentProfile u))"
      and "\<not> rejects db (SetProfile (PublicStudentProfile u))"
  shows "updateStudentProfile db u upd a =
         (Returned,
          db\<lparr>publicStudentProfile := (publicStudentProfile db)(u \<mapsto>
                resolveTimestamp (serverTime db) (updatedProfile cur upd)),
              serverTime := serverTime db + 1\<rparr>)"
  using assms
  by (simp add: updateStudentProfile_def getDoc_def setDoc_merge_def profileAt_def
      storeProfile_def Let_def mergeFields_own_update)

lemma updateStudentProfile_missing:
  assumes "profileAt db (if u = a then UserProfile u else PublicStudentProfile u) = None"
  shows "updateStudentProfile db u upd a =
         (Returned,
          logError db (if rejects db (GetProfile (if u = a then UserProfile u else PublicStudentProfile u))
                       then ErrorUpdatingProfile (Rejected (GetProfile (if u = a then UserProfile u else PublicStudentProfile u)))
                       else CannotUpdateNoSource))"
  using assms by (simp add: updateStudentProfile_def getDoc_def Let_def)


lemma mergeFields_payload_fields:
  "xp payload = Some x \<Longrightarrow> xp (mergeFields old payload) = Some x"
  "gold payload = Some g \<Longrightarrow> gold (mergeFields old payload) = Some g"
  "level payload = Some l \<Longrightarrow> level (mergeFields old payload) = Some l"
  "lastUpdate payload = Some t \<Longrightarrow> lastUpdate (mergeFields old payload) = Some t"
  "skills payload = Some s \<Longrightarrow> s k = Some v \<Longrightarrow> skillOf (mergeFields old payload) k = Some v"
  by (auto simp: mergeFields_def skillOf_def)

lemma resolved_update_fields:
  "xp (resolveTimestamp t (updatedProfile p u)) = Some (newXP p u)"
  "gold (resolveTimestamp t (updatedProfile p u)) = Some (newGold p u)"
  "level (resolveTimestamp t (updatedProfile p u)) = Some (newLevel p u)"
  "skills (resolveTimestamp t (updatedProfile p u)) = Some (newSkills p u)"
  "lastUpdate (resolveTimestamp t (updatedProfile p u)) = Some (Time t)"
  by (simp_all add: resolveTimestamp_def updatedProfile_def)

lemma written_has_update:
  "(let m = (case stored of None \<Rightarrow> resolveTimestamp t (updatedProfile cur upd)
             | Some old \<Rightarrow> mergeFields old (resolveTimestamp t (updatedProfile cur upd)))
    in xp m = Some (newXP cur upd) \<and> gold m = Some (newGold cur upd) \<and>
       level m = Some (newLevel cur upd) \<and> lastUpdate m = Some (Time t) \<and>
       (\<forall>k v. newSkills cur upd k = Some v \<longrightarrow> skillOf m k = Some v))"
proof (cases stored)
  case None
  then show ?thesis by (simp add: resolved_update_fields skillOf_def)
next
  case (Some old)
  have "\<forall>k v. newSkills cur upd k = Some v \<longrightarrow>
          skillOf (mergeFields old (resolveTimestamp t (updatedProfile cur upd))) k = Some v"
    using mergeFields_payload_fields(5)[OF resolved_update_fields(4)] by blast
  with Some show ?thesis by (simp add: resolved_update_fields mergeFields_payload_fields)
qed


section \<open>Properties of the settlement loop\<close>

lemma skill_names_distinct:
  "distinct [skill_literacy, skill_numeracy, skill_creativity, skill_responsibility,
             skill_problem_solving, skill_self_directed]"
  by (simp add: skill_literacy_def skill_numeracy_def skill_creativity_def
      skill_responsibility_def skill_problem_solving_def skill_self_directed_def)

lemma mission_types_distinct:
  "distinct [type_reading, type_writing, type_math, type_problem]"
  by (simp add: type_reading_def type_writing_def type_math_def type_problem_def)

lemma skillUpdates_scores:
  "num_or (addSkills ns (skillUpdates t) skill_responsibility) 0 =
     num_or (ns skill_responsibility) 0 + 5"
  "num_or (addSkills ns (skillUpdates t) skill_literacy) 0 =
     num_or (ns skill_literacy) 0 + (if t = type_reading \<or> t = type_writing then 10 else 0)"
  "num_or (addSkills ns (skillUpdates t) skill_numeracy) 0 =
     num_or (ns skill_numeracy) 0 + (if t = type_math \<or> t = type_problem then 10 else 0)"
  using skill_names_distinct mission_types_distinct
  by (auto simp: skillUpdates_def split: option.splits)

lemma skillUpdates_others:
  "k \<noteq> skill_responsibility \<Longrightarrow> k \<noteq> skill_literacy \<Longrightarrow> k \<noteq> skill_numeracy \<Longrightarrow>
   addSkills ns (skillUpdates t) k = ns k"
  by (rule addSkills_other) (auto simp: skillUpdates_def)

lemma skillOf_resolved_update:
  "skillOf (resolveTimestamp t (updatedProfile p u)) k =
     addSkills (\<lambda>k. skillOf p k) (case upd_skills u of None \<Rightarrow> [] | Some incs \<Rightarrow> incs) k"
proof -
  have "(\<lambda>k. skillOf p k) = (case skills p of None \<Rightarrow> Map.empty | Some s \<Rightarrow> s)"
    by (rule ext) (simp add: copied_skill)
  then show ?thesis
    by (simp add: skillOf_def resolved_update_fields newSkills_start)
qed

text \<open>One round of the settlement loop when nothing fails.\<close>

lemma rewardEach_step:
  assumes "userProfile db u = Some p"
      and "\<forall>r. \<not> rejects db r"
      and "missionDoc db i = Some stored"
  shows "\<exists>db2. rewardEach db u ((i, m) # rest) = rewardEach db2 u rest \<and>
           userProfile db2 u =
             Some (resolveTimestamp (serverTime db + 1) (updatedProfile p (missionUpdates m))) \<and>
           missionDoc db2 = (missionDoc db)(i \<mapsto> stored\<lparr>isStudentRewarded := True\<rparr>) \<and>
           rejects db2 = rejects db \<and> console db2 = console db"
proof -
  let ?own = "resolveTimestamp (serverTime db + 1) (updatedProfile p (missionUpdates m))"
  let ?mirror = "case publicStudentProfile db u of
                   None \<Rightarrow> resolveTimestamp (serverTime db) (updatedProfile p (missionUpdates m))
                 | Some old \<Rightarrow> mergeFields old (resolveTimestamp (serverTime db) (updatedProfile p (missionUpdates m)))"
  let ?db1 = "db\<lparr>publicStudentProfile := (publicStudentProfile db)(u \<mapsto> ?mirror),
                 userProfile := (userProfile db)(u \<mapsto> ?own),
                 serverTime := serverTime db + 2\<rparr>"
  let ?db2 = "?db1\<lparr>missionDoc := (missionDoc ?db1)(i \<mapsto> stored\<lparr>isStudentRewarded := True\<rparr>),
                   serverTime := serverTime ?db1 + 1\<rparr>"
  from assms(1,2) have run: "updateStudentProfile db u (missionUpdates m) u = (Returned, ?db1)"
    by (intro updateStudentProfile_owner) simp_all
  from assms(2,3) have flag:
    "updateDoc_mission ?db1 i (\<lambda>d. d\<lparr>isStudentRewarded := True\<rparr>) = Inr ?db2"
    by (simp add: updateDoc_mission_def)
  have "rewardEach db u ((i, m) # rest) = rewardEach ?db2 u rest"
    by (simp only: rewardEach.simps run flag split_conv Let_def completion.case sum.case)
  moreover have "userProfile ?db2 u = Some ?own" by simp
  moreover have "missionDoc ?db2 = (missionDoc db)(i \<mapsto> stored\<lparr>isStudentRewarded := True\<rparr>)"
    by simp
  moreover have "rejects ?db2 = rejects db" "console ?db2 = console db" by simp_all
  ultimately show ?thesis by blast
qed


lemma resolved_update_scores:
  "num_or (xp (resolveTimestamp t (updatedProfile p (missionUpdates m)))) 0 =
     num_or (xp p) 0 + num_or (rewardXp m) 0"
  "num_or (gold (resolveTimestamp t (updatedProfile p (missionUpdates m)))) 0 =
     num_or (gold p) 0 + num_or (rewardGold m) 0"
  by (simp_all add: resolved_update_fields newXP_def newGold_def missionUpdates_def)

lemma resolved_mission_skills:
  "skillOf (resolveTimestamp t (updatedProfile p (missionUpdates m))) k =
     addSkills (\<lambda>k. skillOf p k) (skillUpdates (missionType m)) k"
  by (simp add: skillOf_resolved_update missionUpdates_def)

lemma rewardEach_settles:
  assumes "userProfile db u = Some p"
      and "\<forall>r. \<not> rejects db r"
      and "\<forall>(i, m) \<in> set Q. missionDoc db i \<noteq> None"
  shows "\<exists>p'. userProfile (rewardEach db u Q) u = Some p' \<and>
           num_or (xp p') 0 = num_or (xp p) 0 + (\<Sum>(i, m)\<leftarrow>Q. num_or (rewardXp m) 0) \<and>
           num_or (gold p') 0 = num_or (gold p) 0 + (\<Sum>(i, m)\<leftarrow>Q. num_or (rewardGold m) 0) \<and>
           num_or (skillOf p' skill_responsibility) 0 =
             num_or (skillOf p skill_responsibility) 0 + 5 * int (length Q) \<and>
           num_or (skillOf p' skill_literacy) 0 =
             num_or (skillOf p skill_literacy) 0 +
             10 * int (length (filter (\<lambda>(i, m). missionType m = type_reading \<or>
                                               missionType m = type_writing) Q)) \<and>
           num_or (skillOf p' skill_numeracy) 0 =
             num_or (skillOf p skill_numeracy) 0 +
             10 * int (length (filter (\<lambda>(i, m). missionType m = type_math \<or>
                                               missionType m = type_problem) Q)) \<and>
           (\<forall>k. k \<noteq> skill_responsibility \<and> k \<noteq> skill_literacy \<and> k \<noteq> skill_numeracy
                \<longrightarrow> skillOf p' k = skillOf p k) \<and>
           missionDoc (rewardEach db u Q) =
             (\<lambda>i. if i \<in> fst ` set Q
                  then map_option (\<lambda>d. d\<lparr>isStudentRewarded := True\<rparr>) (missionDoc db i)
                  else missionDoc db i) \<and>
           rejects (rewardEach db u Q) = rejects db \<and>
           console (rewardEach db u Q) = console db"
  using assms
proof (induction Q arbitrary: db p)
  case Nil
  then show ?case by simp
next
  case (Cons im rest)
  obtain i m where im: "im = (i, m)" by (cases im)
  from Cons.prems(3) im obtain stored where stored: "missionDoc db i = Some stored" by auto
  let ?p2 = "resolveTimestamp (serverTime db + 1) (updatedProfile p (missionUpdates m))"
  let ?flag = "\<lambda>d::mission. d\<lparr>isStudentRewarded := True\<rparr>"
  from rewardEach_step[OF Cons.prems(1,2) stored, of m rest] obtain db2 where
    step: "rewardEach db u ((i, m) # rest) = rewardEach db2 u rest" and
    own2: "userProfile db2 u = Some ?p2" and
    mis2: "missionDoc db2 = (missionDoc db)(i \<mapsto> ?flag stored)" and
    rej2: "rejects db2 = rejects db" and con2: "console db2 = console db"
    by blast
  from Cons.prems(2) rej2 have ok2: "\<forall>r. \<not> rejects db2 r" by simp
  from Cons.prems(3) mis2 have there2: "\<forall>(j, m') \<in> set rest. missionDoc db2 j \<noteq> None"
    by auto
  from Cons.IH[OF own2 ok2 there2] obtain p' where
    own: "userProfile (rewardEach db2 u rest) u = Some p'" and
    x: "num_or (xp p') 0 = num_or (xp ?p2) 0 + (\<Sum>(i, m)\<leftarrow>rest. num_or (rewardXp m) 0)" and
    g: "num_or (gold p') 0 = num_or (gold ?p2) 0 + (\<Sum>(i, m)\<leftarrow>rest. num_or (rewardGold m) 0)" and
    r: "num_or (skillOf p' skill_responsibility) 0 =
          num_or (skillOf ?p2 skill_responsibility) 0 + 5 * int (length rest)" and
    l: "num_or (skillOf p' skill_literacy) 0 =
          num_or (skillOf ?p2 skill_literacy) 0 +
          10 * int (length (filter (\<lambda>(i, m). missionType m = type_reading \<or>
                                            missionType m = type_writing) rest))" and
    n: "num_or (skillOf p' skill_numeracy) 0 =
          num_or (skillOf ?p2 skill_numeracy) 0 +
          10 * int (length (filter (\<lambda>(i, m). missionType m = type_math \<or>
                                            missionType m = type_problem) rest))" and
    o: "\<forall>k. k \<noteq> skill_responsibility \<and> k \<noteq> skill_literacy \<and> k \<noteq> skill_numeracy
            \<longrightarrow> skillOf p' k = skillOf ?p2 k" and
    md: "missionDoc (rewardEach db2 u rest) =
           (\<lambda>j. if j \<in> fst ` set rest then map_option ?flag (missionDoc db2 j)
                else missionDoc db2 j)" and
    rj: "rejects (rewardEach db2 u rest) = rejects db2" and
    cn: "console (rewardEach db2 u rest) = console db2"
    by blast
  have x': "num_or (xp p') 0 = num_or (xp p) 0 + (\<Sum>(i, m)\<leftarrow>(i, m) # rest. num_or (rewardXp m) 0)"
    unfolding x resolved_update_scores by simp
  have g': "num_or (gold p') 0 = num_or (gold p) 0 + (\<Sum>(i, m)\<leftarrow>(i, m) # rest. num_or (rewardGold m) 0)"
    unfolding g resolved_update_scores by simp
  have r': "num_or (skillOf p' skill_responsibility) 0 =
          num_or (skillOf p skill_responsibility) 0 + 5 * int (length ((i, m) # rest))"
    unfolding r resolved_mission_skills skillUpdates_scores by simp
  have l': "num_or (skillOf p' skill_literacy) 0 =
          num_or (skillOf p skill_literacy) 0 +
          10 * int (length (filter (\<lambda>(i, m). missionType m = type_reading \<or>
                                            missionType m = type_writing) ((i, m) # rest)))"
    unfolding l resolved_mission_skills skillUpdates_scores by simp
  have n': "num_or (skillOf p' skill_numeracy) 0 =
          num_or (skillOf p skill_numeracy) 0 +
          10 * int (length (filter (\<lambda>(i, m). missionType m = type_math \<or>
                                            missionType m = type_problem) ((i, m) # rest)))"
    unfolding n resolved_mission_skills skillUpdates_scores by simp
  have o': "\<forall>k. k \<noteq> skill_responsibility \<and> k \<noteq> skill_literacy \<and> k \<noteq> skill_numeracy
            \<longrightarrow> skillOf p' k = skillOf p k"
    using o by (simp add: resolved_mission_skills skillUpdates_others)
  have md': "missionDoc (rewardEach db2 u rest) =
           (\<lambda>j. if j \<in> fst ` set ((i, m) # rest) then map_option ?flag (missionDoc db j)
                else missionDoc db j)"
    unfolding md mis2 using stored by (auto simp: fun_eq_iff)
  from own x' g' r' l' n' o' md' rj cn rej2 con2
  show ?case unfolding im step by simp
qed



lemma set_refreshMissions:
  "set (refreshMissions db ms) = {(i, d). i \<in> fst ` set ms \<and> missionDoc db i = Some d}"
  by (auto simp: refreshMissions_def List.map_filter_def image_iff split: prod.splits) force+


section \<open>Properties of the routine toggle\<close>

lemma routineReward_scores:
  "num_or (skillOf (resolveTimestamp t (updatedProfile p routineReward)) skill_self_directed) 0 =
     num_or (skillOf p skill_self_directed) 0 + 10"
  "num_or (skillOf (resolveTimestamp t (updatedProfile p routineReward)) skill_responsibility) 0 =
     num_or (skillOf p skill_responsibility) 0 + 5"
  "k \<noteq> skill_self_directed \<Longrightarrow> k \<noteq> skill_responsibility \<Longrightarrow>
     skillOf (resolveTimestamp t (updatedProfile p routineReward)) k = skillOf p k"
  "num_or (xp (resolveTimestamp t (updatedProfile p routineReward))) 0 = num_or (xp p) 0"
  "num_or (gold (resolveTimestamp t (updatedProfile p routineReward))) 0 = num_or (gold p) 0"
  using skill_names_distinct
  by (auto simp: skillOf_resolved_update routineReward_def resolved_update_fields newXP_def
      newGold_def split: option.splits)

lemma toggle_step:
  assumes "u \<noteq> []"
      and "userProfile db u = Some p"
      and "\<forall>r. \<not> rejects db r"
      and "customRoutineDoc db (u, rid) = Some stored"
  shows "\<exists>db' stored'.
           handleToggleTodaysRoutineCompletion db (Some u) date (rid, r) checked = (Returned, db') \<and>
           rejects db' = rejects db \<and>
           customRoutineDoc db' (u, rid) = Some stored' \<and>
           wasCompleted stored' date = checked \<and>
           (if checked \<and> \<not> wasCompleted r date
            then userProfile db' u =
                   Some (resolveTimestamp (serverTime db + 2) (updatedProfile p routineReward))
            else userProfile db' = userProfile db \<and>
                 publicStudentProfile db' = publicStudentProfile db)"
proof -
  let ?stored' = "stored\<lparr>completedDays :=
      Some ((case completedDays stored of None \<Rightarrow> Map.empty | Some d \<Rightarrow> d)(date \<mapsto> checked))\<rparr>"
  let ?db1 = "db\<lparr>customRoutineDoc := (customRoutineDoc db)((u, rid) \<mapsto> ?stored'),
                 serverTime := serverTime db + 1\<rparr>"
  from assms(3,4) have written: "updateDoc_routine db u rid date checked = Inr ?db1"
    by (simp add: updateDoc_routine_def)
  have marked: "wasCompleted ?stored' date = checked" by (simp add: wasCompleted_def)
  show ?thesis
  proof (cases "checked \<and> \<not> wasCompleted r date")
    case True
    let ?own = "resolveTimestamp (serverTime ?db1 + 1) (updatedProfile p routineReward)"
    let ?mirror = "case publicStudentProfile ?db1 u of
                     None \<Rightarrow> resolveTimestamp (serverTime ?db1) (updatedProfile p routineReward)
                   | Some old \<Rightarrow> mergeFields old (resolveTimestamp (serverTime ?db1) (updatedProfile p routineReward))"
    let ?db2 = "?db1\<lparr>publicStudentProfile := (publicStudentProfile ?db1)(u \<mapsto> ?mirror),
                     userProfile := (userProfile ?db1)(u \<mapsto> ?own),
                     serverTime := serverTime ?db1 + 2\<rparr>"
    from assms(2,3) have run: "updateStudentProfile ?db1 u routineReward u = (Returned, ?db2)"
      by (intro updateStudentProfile_owner) simp_all
    have "handleToggleTodaysRoutineCompletion db (Some u) date (rid, r) checked =
        (Returned, ?db2)"
      using True assms(1) written run
      by (simp add: handleToggleTodaysRoutineCompletion_def del: fun_upd_apply)
    moreover have "rejects ?db2 = rejects db" "customRoutineDoc ?db2 (u, rid) = Some ?stored'"
      "userProfile ?db2 u = Some (resolveTimestamp (serverTime db + 2) (updatedProfile p routineReward))"
      by simp_all
    ultimately show ?thesis using True marked by (intro exI[of _ ?db2] exI[of _ ?stored']) auto
  next
    case False
    have "handleToggleTodaysRoutineCompletion db (Some u) date (rid, r) checked =
        (Returned, ?db1)"
      using False assms(1) written
      by (auto simp add: handleToggleTodaysRoutineCompletion_def simp del: fun_upd_apply)
    moreover have "rejects ?db1 = rejects db" "customRoutineDoc ?db1 (u, rid) = Some ?stored'"
      "userProfile ?db1 = userProfile db" "publicStudentProfile ?db1 = publicStudentProfile db"
      by simp_all
    ultimately show ?thesis using False marked by (intro exI[of _ ?db1] exI[of _ ?stored']) auto
  qed
qed



section \<open>Properties of the login\<close>

lemma setDoc_merge_accepted:
  "\<not> rejects db (SetProfile ref) \<Longrightarrow>
   setDoc_merge db ref payload =
     Inr ((storeProfile db ref
            (case profileAt db ref of
               None \<Rightarrow> resolveTimestamp (serverTime db) payload
             | Some old \<Rightarrow> mergeFields old (resolveTimestamp (serverTime db) payload)))
          \<lparr>serverTime := serverTime db + 1\<rparr>)"
  by (simp add: setDoc_merge_def Let_def)

lemma initialSkills_zero:
  "initialSkills skill_literacy = Some 0" "initialSkills skill_numeracy = Some 0"
  "initialSkills skill_creativity = Some 0" "initialSkills skill_responsibility = Some 0"
  "initialSkills skill_problem_solving = Some 0" "initialSkills skill_self_directed = Some 0"
  using skill_names_distinct by (simp_all add: initialSkills_def)

lemma initialSkills_nonempty: "initialSkills \<noteq> Map.empty"
  by (simp add: initialSkills_def)

text \<open>What a stored document holds once the login payload has been merged into it.\<close>

lemma login_payload_written:
  assumes "xp payload = Some 0" "gold payload = Some 0" "level payload = Some 1"
      and "skills payload = Some initialSkills"
  shows "(let w = (case stored of None \<Rightarrow> resolveTimestamp t payload
                   | Some old \<Rightarrow> mergeFields old (resolveTimestamp t payload))
          in xp w = Some 0 \<and> gold w = Some 0 \<and> level w = Some 1 \<and>
             skillOf w skill_literacy = Some 0 \<and> skillOf w skill_numeracy = Some 0 \<and>
             skillOf w skill_creativity = Some 0 \<and> skillOf w skill_responsibility = Some 0 \<and>
             skillOf w skill_problem_solving = Some 0 \<and> skillOf w skill_self_directed = Some 0)"
  using assms
  by (cases stored)
     (simp_all add: Let_def resolveTimestamp_def mergeFields_def skillOf_def initialSkills_zero
        initialSkills_nonempty)


lemma login_payload_kept:
  "lastUpdate payload = None \<Longrightarrow> isDeleted payload = None \<Longrightarrow> extra payload = Map.empty \<Longrightarrow>
   skills payload = Some initialSkills \<Longrightarrow>
   lastUpdate (mergeFields old (resolveTimestamp t payload)) = lastUpdate old \<and>
   isDeleted (mergeFields old (resolveTimestamp t payload)) = isDeleted old \<and>
   extra (mergeFields old (resolveTimestamp t payload)) = extra old \<and>
   (\<forall>k. initialSkills k = None \<longrightarrow>
        skillOf (mergeFields old (resolveTimestamp t payload)) k = skillOf old k)"
  by (simp add: mergeFields_def resolveTimestamp_def skillOf_def map_add_def
      initialSkills_nonempty split: option.splits)

lemma login_accepted:
  assumes "decideRole inputID inputPassword = Inr r"
      and "\<forall>q. \<not> rejects db q"
  shows "login db (Some uid) inputID inputPassword =
         (Success r,
          (let payload = userProfileData uid r inputID;
               db1 = (storeProfile db (UserProfile uid)
                        (case userProfile db uid of
                           None \<Rightarrow> resolveTimestamp (serverTime db) payload
                         | Some old \<Rightarrow> mergeFields old (resolveTimestamp (serverTime db) payload)))
                     \<lparr>serverTime := serverTime db + 1\<rparr>
           in if r = ''student''
              then (storeProfile db1 (PublicStudentProfile uid)
                      (case publicStudentProfile db uid of
                         None \<Rightarrow> resolveTimestamp (serverTime db + 1)
                                  (payload\<lparr>lastUpdate := Some ServerTimestamp, isDeleted := Some False\<rparr>)
                       | Some old \<Rightarrow> mergeFields old (resolveTimestamp (serverTime db + 1)
                                  (payload\<lparr>lastUpdate := Some ServerTimestamp, isDeleted := Some False\<rparr>))))
                   \<lparr>serverTime := serverTime db + 2\<rparr>
              else db1))"
  using assms
  by (simp add: login_def setDoc_merge_accepted storeProfile_def profileAt_def Let_def
      cong: option.case_cong)


section \<open>Properties of the retrying call\<close>

lemma fetches_append [simp]: "fetches (a @ b) = fetches a @ fetches b"
  by (simp add: fetches_def)

lemma timeouts_append [simp]: "timeouts (a @ b) = timeouts a @ timeouts b"
  by (simp add: timeouts_def)

lemma trace_events [simp]:
  "fetches [] = []" "timeouts [] = []"
  "fetches (Fetch i # tr) = i # fetches tr" "timeouts (Fetch i # tr) = timeouts tr"
  "fetches (ConsoleError l # tr) = fetches tr" "timeouts (ConsoleError l # tr) = timeouts tr"
  "fetches (Timeout d # tr) = fetches tr" "timeouts (Timeout d # tr) = d # timeouts tr"
  by (simp_all add: fetches_def timeouts_def)

lemma attempt_logs_only [simp]:
  "fetches (snd (attempt f)) = []" "timeouts (snd (attempt f)) = []"
  by (simp_all add: attempt_def split: fetched.splits body.splits option.splits)

lemma backoffLoop_success:
  "i < retries \<Longrightarrow> fst (attempt (fetch i)) = Inr t \<Longrightarrow>
   backoffLoop fetch retries i delay trace =
     (Inr (Some t), trace @ [Fetch i] @ snd (attempt (fetch i)))"
  by (cases "attempt (fetch i)") (simp add: backoffLoop.simps[of fetch retries i])

lemma backoffLoop_retry:
  "i < retries - 1 \<Longrightarrow> fst (attempt (fetch i)) = Inl e \<Longrightarrow>
   backoffLoop fetch retries i delay trace =
     backoffLoop fetch retries (i + 1) (delay * 2)
       (trace @ [Fetch i] @ snd (attempt (fetch i)) @
        [ConsoleError (AttemptFailed (i + 1) e), Timeout delay])"
proof -
  assume "i < retries - 1" and failed: "fst (attempt (fetch i)) = Inl e"
  then have "i < retries" by arith
  with \<open>i < retries - 1\<close> failed show ?thesis
    by (cases "attempt (fetch i)") (simp add: backoffLoop.simps[of fetch retries i])
qed

lemma backoffLoop_give_up:
  "i < retries \<Longrightarrow> \<not> i < retries - 1 \<Longrightarrow> fst (attempt (fetch i)) = Inl e \<Longrightarrow>
   backoffLoop fetch retries i delay trace =
     (Inl e, trace @ [Fetch i] @ snd (attempt (fetch i)) @ [ConsoleError (AttemptFailed (i + 1) e)])"
  by (cases "attempt (fetch i)") (simp add: backoffLoop.simps[of fetch retries i])

text \<open>The three rounds of the call, one after the other.\<close>

lemma call_round_1:
  "fst (attempt (fetch 0)) = Inl e0 \<Longrightarrow>
   callGeminiAPIWithExponentialBackoff fetch =
     backoffLoop fetch 3 1 2000
       ([Fetch 0] @ snd (attempt (fetch 0)) @ [ConsoleError (AttemptFailed 1 e0), Timeout 1000])"
  using backoffLoop_retry[where i = 0 and retries = 3 and fetch = fetch and e = e0
      and delay = 1000 and trace = "[]"]
  by (simp add: callGeminiAPIWithExponentialBackoff_def)

lemma call_round_2:
  "fst (attempt (fetch 1)) = Inl e1 \<Longrightarrow>
   backoffLoop fetch 3 1 2000 trace =
     backoffLoop fetch 3 2 4000
       (trace @ [Fetch 1] @ snd (attempt (fetch 1)) @ [ConsoleError (AttemptFailed 2 e1), Timeout 2000])"
  using backoffLoop_retry[where i = 1 and retries = 3 and fetch = fetch and e = e1
      and delay = 2000 and trace = trace]
  by (simp add: numeral_2_eq_2)

text \<open>
  Claim C1. The student's profile exists, no call is refused and the component's copy
  of the missions is what the store holds. Then settlement handles exactly the missions
  that are completed and not yet rewarded: the profile gains the sum of their
  \<open>rewardXp\<close> and \<open>rewardGold\<close>, 5 points of responsibility for each of them, 10 points
  of literacy for each reading or writing mission and 10 points of numeracy for each
  math or problem-solving mission, and no other skill changes; each of these missions is
  stored with \<open>isStudentRewarded\<close> set and no other mission document changes. A second
  run on the refreshed missions finds nothing to settle and leaves the store as it is, so
  the reward has been applied once.
\<close>

theorem mission_settlement:
  assumes "userProfile db u = Some p"
      and "\<forall>r. \<not> rejects db r"
      and "\<forall>(i, m) \<in> set ms. missionDoc db i = Some m"
  shows "(let Q = filter (\<lambda>(i, m). isCompleted m \<and> \<not> isStudentRewarded m) ms;
              db' = snd (processRewards db u ms)
          in fst (processRewards db u ms) = Returned \<and>
             (\<exists>p'. userProfile db' u = Some p' \<and>
                num_or (xp p') 0 = num_or (xp p) 0 + (\<Sum>(i, m)\<leftarrow>Q. num_or (rewardXp m) 0) \<and>
                num_or (gold p') 0 = num_or (gold p) 0 + (\<Sum>(i, m)\<leftarrow>Q. num_or (rewardGold m) 0) \<and>
                num_or (skillOf p' skill_responsibility) 0 =
                  num_or (skillOf p skill_responsibility) 0 + 5 * int (length Q) \<and>
                num_or (skillOf p' skill_literacy) 0 =
                  num_or (skillOf p skill_literacy) 0 +
                  10 * int (length (filter (\<lambda>(i, m). missionType m = type_reading \<or>
                                                    missionType m = type_writing) Q)) \<and>
                num_or (skillOf p' skill_numeracy) 0 =
                  num_or (skillOf p skill_numeracy) 0 +
                  10 * int (length (filter (\<lambda>(i, m). missionType m = type_math \<or>
                                                    missionType m = type_problem) Q)) \<and>
                (\<forall>k. k \<noteq> skill_responsibility \<and> k \<noteq> skill_literacy \<and> k \<noteq> skill_numeracy
                     \<longrightarrow> skillOf p' k = skillOf p k)) \<and>
             (\<forall>i. missionDoc db' i =
                    (if i \<in> fst ` set Q
                     then map_option (\<lambda>d. d\<lparr>isStudentRewarded := True\<rparr>) (missionDoc db i)
                     else missionDoc db i)) \<and>
             processRewards db' u (refreshMissions db' ms) = (Returned, db'))"
proof -
  let ?Q = "filter (\<lambda>(i, m). isCompleted m \<and> \<not> isStudentRewarded m) ms"
  let ?db' = "snd (processRewards db u ms)"
  let ?flag = "\<lambda>d::mission. d\<lparr>isStudentRewarded := True\<rparr>"
  have Q: "missionsToReward ms = ?Q" by (simp add: missionsToReward_def)
  have db': "?db' = rewardEach db u ?Q"
    by (cases "?Q") (simp_all add: processRewards_def Q)
  have ended: "fst (processRewards db u ms) = Returned"
    by (simp add: processRewards_def)
  from assms(3) have there: "\<forall>(i, m) \<in> set ?Q. missionDoc db i \<noteq> None" by auto
  from rewardEach_settles[OF assms(1,2) there] obtain p' where
    own: "userProfile (rewardEach db u ?Q) u = Some p'" and
    scores: "num_or (xp p') 0 = num_or (xp p) 0 + (\<Sum>(i, m)\<leftarrow>?Q. num_or (rewardXp m) 0)"
      "num_or (gold p') 0 = num_or (gold p) 0 + (\<Sum>(i, m)\<leftarrow>?Q. num_or (rewardGold m) 0)"
      "num_or (skillOf p' skill_responsibility) 0 =
         num_or (skillOf p skill_responsibility) 0 + 5 * int (length ?Q)"
      "num_or (skillOf p' skill_literacy) 0 =
         num_or (skillOf p skill_literacy) 0 +
         10 * int (length (filter (\<lambda>(i, m). missionType m = type_reading \<or>
                                           missionType m = type_writing) ?Q))"
      "num_or (skillOf p' skill_numeracy) 0 =
         num_or (skillOf p skill_numeracy) 0 +
         10 * int (length (filter (\<lambda>(i, m). missionType m = type_math \<or>
                                           missionType m = type_problem) ?Q))"
      "\<forall>k. k \<noteq> skill_responsibility \<and> k \<noteq> skill_literacy \<and> k \<noteq> skill_numeracy
           \<longrightarrow> skillOf p' k = skillOf p k" and
    docs: "missionDoc (rewardEach db u ?Q) =
             (\<lambda>i. if i \<in> fst ` set ?Q then map_option ?flag (missionDoc db i) else missionDoc db i)"
    by blast
  have none_left: "missionsToReward (refreshMissions ?db' ms) = []"
  proof -
    have "\<not> (isCompleted d \<and> \<not> isStudentRewarded d)"
      if "(i, d) \<in> set (refreshMissions ?db' ms)" for i d
    proof -
      from that obtain m where m: "(i, m) \<in> set ms" and d: "missionDoc ?db' i = Some d"
        by (auto simp: set_refreshMissions)
      from assms(3) m have stored: "missionDoc db i = Some m" by auto
      show ?thesis
      proof (cases "i \<in> fst ` set ?Q")
        case True
        with d stored have "d = ?flag m" by (simp add: db' docs)
        then show ?thesis by simp
      next
        case False
        with d stored have "d = m" by (simp add: db' docs)
        moreover from False m have "\<not> (isCompleted m \<and> \<not> isStudentRewarded m)"
          by (force simp: image_iff)
        ultimately show ?thesis by simp
      qed
    qed
    then show ?thesis by (auto simp: missionsToReward_def filter_empty_conv)
  qed
  then have again: "processRewards ?db' u (refreshMissions ?db' ms) = (Returned, ?db')"
    by (simp add: processRewards_def)
  from docs have docs': "\<forall>i. missionDoc ?db' i =
      (if i \<in> fst ` set ?Q then map_option ?flag (missionDoc db i) else missionDoc db i)"
    by (simp add: db')
  from own have own': "userProfile ?db' u = Some p'" by (simp add: db')
  show ?thesis
    unfolding Let_def using ended own' scores docs' again by blast
qed


theorem mission_settlement_witness:
  "(let db' = snd (processRewards missionStore ''s1'' dailyMissions1)
    in (\<exists>p'. userProfile db' ''s1'' = Some p' \<and>
          num_or (xp p') 0 = 115 \<and> num_or (gold p') 0 = 5 \<and>
          num_or (skillOf p' skill_responsibility) 0 = 5 \<and>
          num_or (skillOf p' skill_literacy) 0 = 10 \<and>
          num_or (skillOf p' skill_numeracy) 0 = 0) \<and>
       missionDoc db' ''m1'' = Some (readingMission\<lparr>isStudentRewarded := True\<rparr>) \<and>
       missionDoc db' ''m2'' = Some openMission \<and>
       missionDoc db' ''m3'' = Some settledMission \<and>
       processRewards db' ''s1'' (refreshMissions db' dailyMissions1) = (Returned, db'))"
proof -
  have h1: "userProfile missionStore ''s1'' = Some studentDoc"
    by (simp add: missionStore_def classStore_def emptyStore_def)
  have h2: "\<forall>r. \<not> rejects missionStore r"
    by (simp add: missionStore_def classStore_def emptyStore_def)
  have h3: "\<forall>(i, m) \<in> set dailyMissions1. missionDoc missionStore i = Some m"
    by (simp add: missionStore_def dailyMissions1_def)
  have Q: "filter (\<lambda>(i, m). isCompleted m \<and> \<not> isStudentRewarded m) dailyMissions1 =
      [(''m1'', readingMission)]"
    by (simp add: dailyMissions1_def readingMission_def openMission_def settledMission_def)
  have types: "missionType readingMission = type_reading" "type_reading \<noteq> type_math"
    "type_reading \<noteq> type_problem"
    using mission_types_distinct by (simp_all add: readingMission_def)
  have before: "num_or (xp studentDoc) 0 = 95" "num_or (gold studentDoc) 0 = 0"
    "num_or (skillOf studentDoc skill_responsibility) 0 = 0"
    "num_or (skillOf studentDoc skill_literacy) 0 = 0"
    "num_or (skillOf studentDoc skill_numeracy) 0 = 0"
    using skill_names_distinct
    by (simp_all add: studentDoc_def noFields_def skillOf_def initialSkills_def)
  have rewards: "num_or (rewardXp readingMission) 0 = 20" "num_or (rewardGold readingMission) 0 = 5"
    by (simp_all add: readingMission_def)
  have stored: "missionDoc missionStore ''m1'' = Some readingMission"
    "missionDoc missionStore ''m2'' = Some openMission"
    "missionDoc missionStore ''m3'' = Some settledMission"
    by (simp_all add: missionStore_def dailyMissions1_def)
  from mission_settlement[OF h1 h2 h3]
  show ?thesis
    unfolding Let_def Q
    by (simp add: types before rewards stored del: num_or_zero) blast
qed


text \<open>
  Claim C2. For every profile document and every delta, the update computes the new
  experience points as the profile's plus the delta's and the new gold likewise, a
  missing value counting as 0. The new level is reached from the profile's level (1 when
  the field is missing or 0) by incrementing while the new experience points are at
  least 100 times the level: it is the first level from the start on that the new
  experience points fall short of, every level passed on the way was reached, and it is
  never smaller than the level the profile had. Whenever the profile's level is not 0,
  or the new experience points are not negative, this is the loop run from the profile's
  own level.
\<close>

theorem progression_update_values:
  "(let x' = (case xp p of None \<Rightarrow> 0 | Some x \<Rightarrow> x) + (case upd_xp u of None \<Rightarrow> 0 | Some d \<Rightarrow> d);
        g' = (case gold p of None \<Rightarrow> 0 | Some g \<Rightarrow> g) + (case upd_gold u of None \<Rightarrow> 0 | Some d \<Rightarrow> d);
        start = (case level p of None \<Rightarrow> 1 | Some l \<Rightarrow> if l = 0 then 1 else l)
    in xp (updatedProfile p u) = Some x' \<and>
       gold (updatedProfile p u) = Some g' \<and>
       (\<exists>L. level (updatedProfile p u) = Some L \<and> start \<le> L \<and> x' < L * 100 \<and>
            (\<forall>k. start \<le> k \<and> k < L \<longrightarrow> k * 100 \<le> x') \<and>
            (\<forall>l. level p = Some l \<longrightarrow> l \<le> L) \<and>
            (\<forall>l. level p = Some l \<and> (l \<noteq> 0 \<or> 0 \<le> x') \<longrightarrow> L = levelLoop x' l)))"
proof -
  let ?x = "newXP p u" and ?s = "num_or (level p) 1"
  have x: "?x = (case xp p of None \<Rightarrow> 0 | Some x \<Rightarrow> x) + (case upd_xp u of None \<Rightarrow> 0 | Some d \<Rightarrow> d)"
    by (simp add: newXP_def)
  have s: "?s = (case level p of None \<Rightarrow> 1 | Some l \<Rightarrow> if l = 0 then 1 else l)"
    by (simp add: num_or_def)
  have lev: "level (updatedProfile p u) = Some (levelLoop ?x ?s)"
    by (simp add: updatedProfile_def newLevel_def)
  have ge: "?s \<le> levelLoop ?x ?s" by (rule levelLoop_ge)
  have stop: "?x < levelLoop ?x ?s * 100" by (rule levelLoop_stops)
  have passed: "\<forall>k. ?s \<le> k \<and> k < levelLoop ?x ?s \<longrightarrow> k * 100 \<le> ?x"
    using levelLoop_passed by blast
  have start: "\<forall>l. level p = Some l \<longrightarrow> l \<le> ?s"
    by (auto simp: num_or_def)
  with ge have never_less: "\<forall>l. level p = Some l \<longrightarrow> l \<le> levelLoop ?x ?s" by fastforce
  have from_own: "\<forall>l. level p = Some l \<and> (l \<noteq> 0 \<or> 0 \<le> ?x) \<longrightarrow>
      levelLoop ?x ?s = levelLoop ?x l"
  proof (intro allI impI)
    fix l assume l: "level p = Some l \<and> (l \<noteq> 0 \<or> 0 \<le> ?x)"
    show "levelLoop ?x ?s = levelLoop ?x l"
    proof (cases "l = 0")
      case True
      with l have "0 \<le> ?x" and "?s = 1" by (simp_all add: num_or_def)
      then show ?thesis using True by (simp add: levelLoop.simps[of ?x 0])
    next
      case False
      with l show ?thesis by (simp add: num_or_def)
    qed
  qed
  have "xp (updatedProfile p u) = Some ?x" "gold (updatedProfile p u) = Some (newGold p u)"
    by (simp_all add: updatedProfile_def)
  moreover have "newGold p u = (case gold p of None \<Rightarrow> 0 | Some g \<Rightarrow> g) + (case upd_gold u of None \<Rightarrow> 0 | Some d \<Rightarrow> d)"
    by (simp add: newGold_def)
  ultimately show ?thesis
    using lev ge stop passed never_less from_own
    unfolding Let_def x[symmetric] s[symmetric] by metis
qed

theorem progression_update_values_witness:
  "xp (updatedProfile (noFields\<lparr>xp := Some 250, gold := Some 3, level := Some 1\<rparr>)
        (noUpdates\<lparr>upd_xp := Some 60\<rparr>)) = Some 310 \<and>
   gold (updatedProfile (noFields\<lparr>xp := Some 250, gold := Some 3, level := Some 1\<rparr>)
        (noUpdates\<lparr>upd_xp := Some 60\<rparr>)) = Some 3 \<and>
   level (updatedProfile (noFields\<lparr>xp := Some 250, gold := Some 3, level := Some 1\<rparr>)
        (noUpdates\<lparr>upd_xp := Some 60\<rparr>)) = Some 4"
proof -
  let ?p = "noFields\<lparr>xp := Some 250, gold := Some 3, level := Some 1\<rparr>"
  let ?u = "noUpdates\<lparr>upd_xp := Some 60\<rparr>"
  from progression_update_values[of ?p ?u] obtain L where
    xg: "xp (updatedProfile ?p ?u) = Some 310 \<and> gold (updatedProfile ?p ?u) = Some 3" and
    L: "level (updatedProfile ?p ?u) = Some L" "1 \<le> L" "310 < L * 100"
       "\<forall>k. 1 \<le> k \<and> k < L \<longrightarrow> k * 100 \<le> 310"
    by (auto simp: Let_def noFields_def noUpdates_def)
  have "L \<le> 4"
  proof (rule ccontr)
    assume "\<not> L \<le> 4"
    then have "1 \<le> (4::int) \<and> 4 < L" by simp
    with L(4) have "(4::int) * 100 \<le> 310" by blast
    then show False by simp
  qed
  moreover from L(3) have "4 \<le> L" by simp
  ultimately have "L = 4" by simp
  with xg L(1) show ?thesis by simp
qed

text \<open>
  Claim C3. A profile at level 1 with 95 experience points that receives 10 has 105 and
  level 2; a further 100 applied to that result gives 205 and level 3.
\<close>

theorem leveling_scenario:
  "(let p1 = updatedProfile (p\<lparr>xp := Some 95, level := Some 1\<rparr>) (u\<lparr>upd_xp := Some 10\<rparr>);
        p2 = updatedProfile p1 (u'\<lparr>upd_xp := Some 100\<rparr>)
    in xp p1 = Some 105 \<and> level p1 = Some 2 \<and> xp p2 = Some 205 \<and> level p2 = Some 3)"
  by (simp add: Let_def updatedProfile_def newXP_def newLevel_def num_or_def levelLoop.simps)

text \<open>
  Claim C4. When the increments of a delta (experience points, gold and every skill
  increment) are non-negative, the update never decreases the level, the experience
  points, the gold or any skill score the profile holds. Nothing is asked of the
  profile's own values.
\<close>

theorem progression_update_monotone:
  assumes "\<forall>d. upd_xp u = Some d \<longrightarrow> 0 \<le> d"
      and "\<forall>d. upd_gold u = Some d \<longrightarrow> 0 \<le> d"
      and "\<forall>incs. upd_skills u = Some incs \<longrightarrow> (\<forall>(k, i) \<in> set incs. 0 \<le> i)"
  shows "(\<forall>l. level p = Some l \<longrightarrow> (\<exists>l'. level (updatedProfile p u) = Some l' \<and> l \<le> l')) \<and>
         (\<forall>x. xp p = Some x \<longrightarrow> (\<exists>x'. xp (updatedProfile p u) = Some x' \<and> x \<le> x')) \<and>
         (\<forall>g. gold p = Some g \<longrightarrow> (\<exists>g'. gold (updatedProfile p u) = Some g' \<and> g \<le> g')) \<and>
         (\<forall>k v. skillOf p k = Some v \<longrightarrow>
                (\<exists>v'. skillOf (updatedProfile p u) k = Some v' \<and> v \<le> v'))"
proof (intro conjI allI impI)
  fix l assume "level p = Some l"
  then have "l \<le> num_or (level p) 1" by (simp add: num_or_def)
  also have "\<dots> \<le> newLevel p u" unfolding newLevel_def by (rule levelLoop_ge)
  finally show "\<exists>l'. level (updatedProfile p u) = Some l' \<and> l \<le> l'"
    by (simp add: updatedProfile_def)
next
  fix x assume "xp p = Some x"
  with assms(1) have "x \<le> newXP p u" by (cases "upd_xp u") (simp_all add: newXP_def)
  then show "\<exists>x'. xp (updatedProfile p u) = Some x' \<and> x \<le> x'"
    by (simp add: updatedProfile_def)
next
  fix g assume "gold p = Some g"
  with assms(2) have "g \<le> newGold p u" by (cases "upd_gold u") (simp_all add: newGold_def)
  then show "\<exists>g'. gold (updatedProfile p u) = Some g' \<and> g \<le> g'"
    by (simp add: updatedProfile_def)
next
  fix k v assume "skillOf p k = Some v"
  then have held: "(case skills p of None \<Rightarrow> Map.empty | Some s \<Rightarrow> s) k = Some v"
    by (simp only: copied_skill)
  from assms(3) have "\<forall>(k, i) \<in> set (case upd_skills u of None \<Rightarrow> [] | Some incs \<Rightarrow> incs). 0 \<le> i"
    by (cases "upd_skills u") simp_all
  from addSkills_mono[where ns = "case skills p of None \<Rightarrow> Map.empty | Some s \<Rightarrow> s"
      and k = k and v = v, OF this held]
  show "\<exists>v'. skillOf (updatedProfile p u) k = Some v' \<and> v \<le> v'"
    by (simp only: skillOf_updatedProfile newSkills_start)
qed

theorem progression_update_monotone_witness:
  "(let p = noFields\<lparr>xp := Some 40, gold := Some 7, level := Some 1,
                      skills := Some [skill_literacy \<mapsto> 3]\<rparr>;
        u = \<lparr>upd_xp = Some 10, upd_gold = Some 5,
             upd_skills = Some [(skill_literacy, 5), (skill_creativity, 5)]\<rparr>
    in (\<exists>l'. level (updatedProfile p u) = Some l' \<and> 1 \<le> l') \<and>
       (\<exists>x'. xp (updatedProfile p u) = Some x' \<and> 40 \<le> x') \<and>
       (\<exists>g'. gold (updatedProfile p u) = Some g' \<and> 7 \<le> g') \<and>
       (\<exists>v'. skillOf (updatedProfile p u) skill_literacy = Some v' \<and> 3 \<le> v'))"
proof -
  let ?p = "noFields\<lparr>xp := Some 40, gold := Some 7, level := Some 1,
                      skills := Some [skill_literacy \<mapsto> 3]\<rparr>"
  let ?u = "\<lparr>upd_xp = Some 10, upd_gold = Some 5,
             upd_skills = Some [(skill_literacy, 5), (skill_creativity, 5)]\<rparr>"
  have h1: "\<forall>d. upd_xp ?u = Some d \<longrightarrow> 0 \<le> d" by simp
  have h2: "\<forall>d. upd_gold ?u = Some d \<longrightarrow> 0 \<le> d" by simp
  have h3: "\<forall>incs. upd_skills ?u = Some incs \<longrightarrow> (\<forall>(k, i) \<in> set incs. 0 \<le> i)" by simp
  have p: "level ?p = Some 1" "xp ?p = Some 40" "gold ?p = Some 7"
          "skillOf ?p skill_literacy = Some 3"
    by (simp_all add: noFields_def skillOf_def)
  from progression_update_monotone[OF h1 h2 h3, of ?p] p
  show ?thesis unfolding Let_def by blast
qed

text \<open>
  Claim C7. Of a profile document the update changes the fields \<open>xp\<close>, \<open>gold\<close>,
  \<open>level\<close>, \<open>skills\<close> and \<open>lastUpdate\<close> only: the identifier, role, display name,
  deletion flag and any further field keep their values. Within \<open>skills\<close>, a key the
  delta does not name keeps its score, and a key the delta names holds its former score
  (0 when it had none) plus the increment.
\<close>

theorem progression_update_frame:
  "(let incs = (case upd_skills u of None \<Rightarrow> [] | Some l \<Rightarrow> l)
    in userId (updatedProfile p u) = userId p \<and>
       role (updatedProfile p u) = role p \<and>
       displayName (updatedProfile p u) = displayName p \<and>
       isDeleted (updatedProfile p u) = isDeleted p \<and>
       extra (updatedProfile p u) = extra p \<and>
       (\<forall>k. k \<notin> fst ` set incs \<longrightarrow> skillOf (updatedProfile p u) k = skillOf p k) \<and>
       (\<forall>k inc. (k, inc) \<in> set incs \<longrightarrow> distinct (map fst incs) \<longrightarrow>
          skillOf (updatedProfile p u) k =
            Some ((case skillOf p k of None \<Rightarrow> 0 | Some v \<Rightarrow> v) + inc)))"
proof -
  let ?incs = "case upd_skills u of None \<Rightarrow> [] | Some l \<Rightarrow> l"
  have other: "\<forall>k. k \<notin> fst ` set ?incs \<longrightarrow> skillOf (updatedProfile p u) k = skillOf p k"
    by (simp add: skillOf_updatedProfile newSkills_start addSkills_other copied_skill)
  have inc: "\<forall>k inc. (k, inc) \<in> set ?incs \<longrightarrow> distinct (map fst ?incs) \<longrightarrow>
      skillOf (updatedProfile p u) k = Some ((case skillOf p k of None \<Rightarrow> 0 | Some v \<Rightarrow> v) + inc)"
    by (simp add: skillOf_updatedProfile newSkills_start addSkills_key copied_skill)
  show ?thesis
    unfolding Let_def using other inc by (simp add: updatedProfile_def)
qed


theorem progression_update_frame_witness:
  "(let p = noFields\<lparr>displayName := Some ''Kim'', skills := Some [skill_literacy \<mapsto> 3]\<rparr>;
        u = noUpdates\<lparr>upd_skills := Some [(skill_literacy, 5), (skill_creativity, 5)]\<rparr>
    in displayName (updatedProfile p u) = Some ''Kim'' \<and>
       skillOf (updatedProfile p u) skill_numeracy = None \<and>
       skillOf (updatedProfile p u) skill_literacy = Some 8 \<and>
       skillOf (updatedProfile p u) skill_creativity = Some 5)"
proof -
  let ?p = "noFields\<lparr>displayName := Some ''Kim'', skills := Some [skill_literacy \<mapsto> 3]\<rparr>"
  let ?u = "noUpdates\<lparr>upd_skills := Some [(skill_literacy, 5), (skill_creativity, 5)]\<rparr>"
  have names: "skill_literacy \<noteq> skill_creativity" "skill_numeracy \<noteq> skill_literacy"
    "skill_numeracy \<noteq> skill_creativity"
    by (simp_all add: skill_literacy_def skill_creativity_def skill_numeracy_def)
  have incs: "(case upd_skills ?u of None \<Rightarrow> [] | Some l \<Rightarrow> l) =
      [(skill_literacy, 5), (skill_creativity, 5)]"
    by (simp add: noUpdates_def)
  have held: "skillOf ?p skill_literacy = Some 3" "skillOf ?p skill_creativity = None"
    "skillOf ?p skill_numeracy = None" "displayName ?p = Some ''Kim''"
    using names by (simp_all add: skillOf_def noFields_def)
  from progression_update_frame[of ?u ?p] names held
  show ?thesis unfolding Let_def incs by simp
qed

text \<open>
  Claim C5. The wrapper calls the endpoint at least once and at most three times. It
  returns the text of the first attempt that succeeds, after no timeout, after one of
  1000 ms, or after one of 1000 ms and one of 2000 ms; when all three attempts fail it
  throws the error of the third, having awaited 1000 ms and 2000 ms. An attempt fails on
  a response that is not ok, on a body that does not parse and on a body without the
  text field; a response that is ok and carries a non-empty text succeeds with that text.
\<close>

theorem retry_with_backoff:
  "(let result = fst (callGeminiAPIWithExponentialBackoff fetch);
        trace = snd (callGeminiAPIWithExponentialBackoff fetch);
        a0 = fst (attempt (fetch 0)); a1 = fst (attempt (fetch 1)); a2 = fst (attempt (fetch 2))
    in 1 \<le> length (fetches trace) \<and> length (fetches trace) \<le> 3 \<and>
       (\<forall>t. a0 = Inr t \<longrightarrow>
          result = Inr (Some t) \<and> fetches trace = [0] \<and> timeouts trace = []) \<and>
       (\<forall>e0 t. a0 = Inl e0 \<and> a1 = Inr t \<longrightarrow>
          result = Inr (Some t) \<and> fetches trace = [0, 1] \<and> timeouts trace = [1000]) \<and>
       (\<forall>e0 e1 t. a0 = Inl e0 \<and> a1 = Inl e1 \<and> a2 = Inr t \<longrightarrow>
          result = Inr (Some t) \<and> fetches trace = [0, 1, 2] \<and> timeouts trace = [1000, 2000]) \<and>
       (\<forall>e0 e1 e2. a0 = Inl e0 \<and> a1 = Inl e1 \<and> a2 = Inl e2 \<longrightarrow>
          result = Inl e2 \<and> fetches trace = [0, 1, 2] \<and> timeouts trace = [1000, 2000])) \<and>
   (\<forall>status b. \<exists>e. fst (attempt (Response False status b)) = Inl e) \<and>
   (\<forall>ok status. fst (attempt (Response ok status Unparseable)) = Inl SyntaxError) \<and>
   (\<forall>status msg. fst (attempt (Response True status (JsonObject msg None))) = Inl InvalidStructure) \<and>
   (\<forall>status msg t. t \<noteq> [] \<longrightarrow>
      fst (attempt (Response True status (JsonObject msg (Some t)))) = Inr t)"
proof (intro conjI)
  let ?call = "callGeminiAPIWithExponentialBackoff fetch"
  have first: "fst ?call = Inr (Some t) \<and> fetches (snd ?call) = [0] \<and> timeouts (snd ?call) = []"
    if "fst (attempt (fetch 0)) = Inr t" for t
    using that by (simp add: callGeminiAPIWithExponentialBackoff_def backoffLoop_success)
  have second: "fst ?call = Inr (Some t) \<and> fetches (snd ?call) = [0, 1] \<and>
      timeouts (snd ?call) = [1000]"
    if "fst (attempt (fetch 0)) = Inl e0" "fst (attempt (fetch 1)) = Inr t" for e0 t
    unfolding call_round_1[where fetch = fetch, OF that(1)]
    using backoffLoop_success[where i = 1 and retries = 3 and fetch = fetch, OF _ that(2)] by simp
  have third: "fst ?call = Inr (Some t) \<and> fetches (snd ?call) = [0, 1, 2] \<and>
      timeouts (snd ?call) = [1000, 2000]"
    if "fst (attempt (fetch 0)) = Inl e0" "fst (attempt (fetch 1)) = Inl e1"
       "fst (attempt (fetch 2)) = Inr t" for e0 e1 t
    unfolding call_round_1[where fetch = fetch, OF that(1)] call_round_2[where fetch = fetch, OF that(2)]
    using backoffLoop_success[where i = 2 and retries = 3 and fetch = fetch, OF _ that(3)] by simp
  have none: "fst ?call = Inl e2 \<and> fetches (snd ?call) = [0, 1, 2] \<and>
      timeouts (snd ?call) = [1000, 2000]"
    if "fst (attempt (fetch 0)) = Inl e0" "fst (attempt (fetch 1)) = Inl e1"
       "fst (attempt (fetch 2)) = Inl e2" for e0 e1 e2
    unfolding call_round_1[where fetch = fetch, OF that(1)] call_round_2[where fetch = fetch, OF that(2)]
    using backoffLoop_give_up[where i = 2 and retries = 3 and fetch = fetch, OF _ _ that(3)] by simp
  have count: "1 \<le> length (fetches (snd ?call)) \<and> length (fetches (snd ?call)) \<le> 3"
  proof (cases "fst (attempt (fetch 0))")
    case (Inr t)
    from first[OF this] show ?thesis by simp
  next
    case e0: (Inl e0)
    show ?thesis
    proof (cases "fst (attempt (fetch 1))")
      case (Inr t)
      from second[OF e0 this] show ?thesis by simp
    next
      case e1: (Inl e1)
      show ?thesis
      proof (cases "fst (attempt (fetch 2))")
        case (Inr t)
        from third[OF e0 e1 this] show ?thesis by simp
      next
        case (Inl e2)
        from none[OF e0 e1 this] show ?thesis by simp
      qed
    qed
  qed
  show "(let result = fst ?call; trace = snd ?call;
        a0 = fst (attempt (fetch 0)); a1 = fst (attempt (fetch 1)); a2 = fst (attempt (fetch 2))
    in 1 \<le> length (fetches trace) \<and> length (fetches trace) \<le> 3 \<and>
       (\<forall>t. a0 = Inr t \<longrightarrow>
          result = Inr (Some t) \<and> fetches trace = [0] \<and> timeouts trace = []) \<and>
       (\<forall>e0 t. a0 = Inl e0 \<and> a1 = Inr t \<longrightarrow>
          result = Inr (Some t) \<and> fetches trace = [0, 1] \<and> timeouts trace = [1000]) \<and>
       (\<forall>e0 e1 t. a0 = Inl e0 \<and> a1 = Inl e1 \<and> a2 = Inr t \<longrightarrow>
          result = Inr (Some t) \<and> fetches trace = [0, 1, 2] \<and> timeouts trace = [1000, 2000]) \<and>
       (\<forall>e0 e1 e2. a0 = Inl e0 \<and> a1 = Inl e1 \<and> a2 = Inl e2 \<longrightarrow>
          result = Inl e2 \<and> fetches trace = [0, 1, 2] \<and> timeouts trace = [1000, 2000]))"
    unfolding Let_def using count first second third none by blast
next
  show "\<forall>status b. \<exists>e. fst (attempt (Response False status b)) = Inl e"
    by (simp add: attempt_def split: body.splits)
next
  show "\<forall>ok status. fst (attempt (Response ok status Unparseable)) = Inl SyntaxError"
    by (simp add: attempt_def)
next
  show "\<forall>status msg. fst (attempt (Response True status (JsonObject msg None))) = Inl InvalidStructure"
    by (simp add: attempt_def)
next
  show "\<forall>status msg t. t \<noteq> [] \<longrightarrow>
      fst (attempt (Response True status (JsonObject msg (Some t)))) = Inr t"
    by (simp add: attempt_def)
qed


theorem retry_with_backoff_witness:
  "fst (callGeminiAPIWithExponentialBackoff failsTwice) = Inr (Some ''well done'') \<and>
   fetches (snd (callGeminiAPIWithExponentialBackoff failsTwice)) = [0, 1, 2] \<and>
   timeouts (snd (callGeminiAPIWithExponentialBackoff failsTwice)) = [1000, 2000] \<and>
   fst (callGeminiAPIWithExponentialBackoff alwaysFails) = Inl (ApiCallFailed 500 ''overloaded'') \<and>
   fetches (snd (callGeminiAPIWithExponentialBackoff alwaysFails)) = [0, 1, 2] \<and>
   timeouts (snd (callGeminiAPIWithExponentialBackoff alwaysFails)) = [1000, 2000]"
proof -
  have twice: "fst (attempt (failsTwice 0)) = Inl (ApiCallFailed 500 ''Unknown error'')"
    "fst (attempt (failsTwice 1)) = Inl (ApiCallFailed 500 ''Unknown error'')"
    "fst (attempt (failsTwice 2)) = Inr ''well done''"
    by (simp_all add: attempt_def failsTwice_def)
  have always: "fst (attempt (alwaysFails 0)) = Inl (ApiCallFailed 500 ''overloaded'')"
    "fst (attempt (alwaysFails 1)) = Inl (ApiCallFailed 500 ''overloaded'')"
    "fst (attempt (alwaysFails 2)) = Inl (ApiCallFailed 500 ''overloaded'')"
    by (simp_all add: attempt_def alwaysFails_def)
  from retry_with_backoff[of failsTwice] retry_with_backoff[of alwaysFails]
  show ?thesis unfolding Let_def twice always by simp
qed

text \<open>
  Claim C6. The student's profile and the routine document exist and no call is refused.
  A change to checked of a date that the component's copy shows as not completed adds 10
  points of self-directed learning and 5 points of responsibility to the profile and
  changes no other skill, nor the experience points or the gold; a change to unchecked,
  or to checked of a date already completed, leaves both profile documents as they
  were. Checking, unchecking and checking again a date that was not completed grants the
  reward twice.
\<close>

theorem routine_toggle_reward:
  assumes "u \<noteq> []"
      and "userProfile db u = Some p"
      and "\<forall>r. \<not> rejects db r"
      and "customRoutineDoc db (u, rid) = Some stored"
  shows "(let db' = snd (handleToggleTodaysRoutineCompletion db (Some u) date (rid, r) checked)
          in fst (handleToggleTodaysRoutineCompletion db (Some u) date (rid, r) checked) = Returned \<and>
             (checked \<and> \<not> wasCompleted r date \<longrightarrow>
                (\<exists>p'. userProfile db' u = Some p' \<and>
                   num_or (skillOf p' skill_self_directed) 0 =
                     num_or (skillOf p skill_self_directed) 0 + 10 \<and>
                   num_or (skillOf p' skill_responsibility) 0 =
                     num_or (skillOf p skill_responsibility) 0 + 5 \<and>
                   (\<forall>k. k \<noteq> skill_self_directed \<and> k \<noteq> skill_responsibility
                        \<longrightarrow> skillOf p' k = skillOf p k) \<and>
                   num_or (xp p') 0 = num_or (xp p) 0 \<and>
                   num_or (gold p') 0 = num_or (gold p) 0)) \<and>
             (\<not> checked \<or> wasCompleted r date \<longrightarrow>
                userProfile db' = userProfile db \<and>
                publicStudentProfile db' = publicStudentProfile db)) \<and>
         (\<not> wasCompleted stored date \<longrightarrow>
            (\<exists>p3. userProfile (toggleAll db u date rid [True, False, True]) u = Some p3 \<and>
               num_or (skillOf p3 skill_self_directed) 0 =
                 num_or (skillOf p skill_self_directed) 0 + 20 \<and>
               num_or (skillOf p3 skill_responsibility) 0 =
                 num_or (skillOf p skill_responsibility) 0 + 10))"
proof (rule conjI)
  from toggle_step[OF assms, of date r checked] obtain db' stored' where
    run: "handleToggleTodaysRoutineCompletion db (Some u) date (rid, r) checked = (Returned, db')" and
    eff: "if checked \<and> \<not> wasCompleted r date
          then userProfile db' u =
                 Some (resolveTimestamp (serverTime db + 2) (updatedProfile p routineReward))
          else userProfile db' = userProfile db \<and>
               publicStudentProfile db' = publicStudentProfile db"
    by blast
  show "(let db' = snd (handleToggleTodaysRoutineCompletion db (Some u) date (rid, r) checked)
          in fst (handleToggleTodaysRoutineCompletion db (Some u) date (rid, r) checked) = Returned \<and>
             (checked \<and> \<not> wasCompleted r date \<longrightarrow>
                (\<exists>p'. userProfile db' u = Some p' \<and>
                   num_or (skillOf p' skill_self_directed) 0 =
                     num_or (skillOf p skill_self_directed) 0 + 10 \<and>
                   num_or (skillOf p' skill_responsibility) 0 =
                     num_or (skillOf p skill_responsibility) 0 + 5 \<and>
                   (\<forall>k. k \<noteq> skill_self_directed \<and> k \<noteq> skill_responsibility
                        \<longrightarrow> skillOf p' k = skillOf p k) \<and>
                   num_or (xp p') 0 = num_or (xp p) 0 \<and>
                   num_or (gold p') 0 = num_or (gold p) 0)) \<and>
             (\<not> checked \<or> wasCompleted r date \<longrightarrow>
                userProfile db' = userProfile db \<and>
                publicStudentProfile db' = publicStudentProfile db))"
    unfolding Let_def run fst_conv snd_conv
    using eff by (auto simp add: routineReward_scores simp del: num_or_zero)
next
  show "\<not> wasCompleted stored date \<longrightarrow>
            (\<exists>p3. userProfile (toggleAll db u date rid [True, False, True]) u = Some p3 \<and>
               num_or (skillOf p3 skill_self_directed) 0 =
                 num_or (skillOf p skill_self_directed) 0 + 20 \<and>
               num_or (skillOf p3 skill_responsibility) 0 =
                 num_or (skillOf p skill_responsibility) 0 + 10)"
  proof
    assume off: "\<not> wasCompleted stored date"
    let ?p1 = "resolveTimestamp (serverTime db + 2) (updatedProfile p routineReward)"
    from toggle_step[OF assms, of date stored True] off obtain db1 stored1 where
      run1: "handleToggleTodaysRoutineCompletion db (Some u) date (rid, stored) True = (Returned, db1)" and
      ok1: "rejects db1 = rejects db" and
      doc1: "customRoutineDoc db1 (u, rid) = Some stored1" and
      on1: "wasCompleted stored1 date" and
      own1: "userProfile db1 u = Some ?p1"
      by auto
    from assms(3) ok1 have free1: "\<forall>r. \<not> rejects db1 r" by simp
    from toggle_step[OF assms(1) own1 free1 doc1, of date stored1 False] obtain db2 stored2 where
      run2: "handleToggleTodaysRoutineCompletion db1 (Some u) date (rid, stored1) False = (Returned, db2)" and
      ok2: "rejects db2 = rejects db1" and
      doc2: "customRoutineDoc db2 (u, rid) = Some stored2" and
      off2: "\<not> wasCompleted stored2 date" and
      own2: "userProfile db2 = userProfile db1"
      by auto
    from free1 ok2 have free2: "\<forall>r. \<not> rejects db2 r" by simp
    from own1 own2 have own2': "userProfile db2 u = Some ?p1" by simp
    let ?p3 = "resolveTimestamp (serverTime db2 + 2) (updatedProfile ?p1 routineReward)"
    from toggle_step[OF assms(1) own2' free2 doc2, of date stored2 True] off2 obtain db3 where
      run3: "handleToggleTodaysRoutineCompletion db2 (Some u) date (rid, stored2) True = (Returned, db3)" and
      own3: "userProfile db3 u = Some ?p3"
      by auto
    have "toggleAll db u date rid [True, False, True] = db3"
      by (simp add: assms(4) run1 doc1 run2 doc2 run3)
    moreover have "num_or (skillOf ?p3 skill_self_directed) 0 =
        num_or (skillOf p skill_self_directed) 0 + 20"
      and "num_or (skillOf ?p3 skill_responsibility) 0 =
        num_or (skillOf p skill_responsibility) 0 + 10"
      unfolding routineReward_scores by simp_all
    ultimately show "\<exists>p3. userProfile (toggleAll db u date rid [True, False, True]) u = Some p3 \<and>
               num_or (skillOf p3 skill_self_directed) 0 =
                 num_or (skillOf p skill_self_directed) 0 + 20 \<and>
               num_or (skillOf p3 skill_responsibility) 0 =
                 num_or (skillOf p skill_responsibility) 0 + 10"
      using own3 by blast
  qed
qed


theorem routine_toggle_reward_witness:
  "(\<exists>p3. userProfile (toggleAll routineStore ''s1'' ''2024-05-01'' ''r1'' [True, False, True]) ''s1''
            = Some p3 \<and>
          num_or (skillOf p3 skill_self_directed) 0 = 20 \<and>
          num_or (skillOf p3 skill_responsibility) 0 = 10) \<and>
   userProfile (snd (handleToggleTodaysRoutineCompletion routineStore (Some ''s1'') ''2024-05-01''
                       (''r1'', readingRoutine) False)) = userProfile routineStore"
proof -
  have h1: "''s1'' \<noteq> []" by simp
  have h2: "userProfile routineStore ''s1'' = Some studentDoc"
    by (simp add: routineStore_def classStore_def emptyStore_def)
  have h3: "\<forall>r. \<not> rejects routineStore r"
    by (simp add: routineStore_def classStore_def emptyStore_def)
  have h4: "customRoutineDoc routineStore (''s1'', ''r1'') = Some readingRoutine"
    by (simp add: routineStore_def)
  have off: "\<not> wasCompleted readingRoutine ''2024-05-01''"
    by (simp add: wasCompleted_def readingRoutine_def)
  have before: "num_or (skillOf studentDoc skill_self_directed) 0 = 0"
    "num_or (skillOf studentDoc skill_responsibility) 0 = 0"
    using skill_names_distinct
    by (simp_all add: studentDoc_def noFields_def skillOf_def initialSkills_def)
  from routine_toggle_reward[OF h1 h2 h3 h4, of "''2024-05-01''" readingRoutine False] off
  show ?thesis unfolding Let_def by (simp add: before del: num_or_zero)
qed

text \<open>
  Claim C8. When the document the update reads (the private profile for the owner, the
  public mirror for anyone else) does not exist, the call returns normally and the store
  is left as it was but for one line on the console; when the read itself was not
  refused, that line is the missing-source message.
\<close>

theorem update_without_source_document:
  assumes "profileAt db (if u = a then UserProfile u else PublicStudentProfile u) = None"
  shows "fst (updateStudentProfile db u upd a) = Returned \<and>
         (\<exists>entry. snd (updateStudentProfile db u upd a) = db\<lparr>console := console db @ [entry]\<rparr> \<and>
            (\<not> rejects db (GetProfile (if u = a then UserProfile u else PublicStudentProfile u))
               \<longrightarrow> entry = CannotUpdateNoSource))"
proof -
  let ?ref = "if u = a then UserProfile u else PublicStudentProfile u"
  let ?entry = "if rejects db (GetProfile ?ref) then ErrorUpdatingProfile (Rejected (GetProfile ?ref))
                else CannotUpdateNoSource"
  have "updateStudentProfile db u upd a = (Returned, logError db ?entry)"
    by (rule updateStudentProfile_missing[OF assms])
  then have "fst (updateStudentProfile db u upd a) = Returned"
    and "snd (updateStudentProfile db u upd a) = db\<lparr>console := console db @ [?entry]\<rparr>"
    by (simp_all only: fst_conv snd_conv logError_def)
  moreover have "\<not> rejects db (GetProfile ?ref) \<longrightarrow> ?entry = CannotUpdateNoSource"
    by simp
  ultimately show ?thesis by blast
qed

theorem update_without_source_document_witness:
  "updateStudentProfile emptyStore ''s1'' (noUpdates\<lparr>upd_xp := Some 10\<rparr>) ''s1'' =
     (Returned, emptyStore\<lparr>console := [CannotUpdateNoSource]\<rparr>)"
proof -
  have "profileAt emptyStore (if ''s1'' = ''s1'' then UserProfile ''s1'' else PublicStudentProfile ''s1'') = None"
    by (simp add: profileAt_def emptyStore_def)
  from update_without_source_document[OF this, of "noUpdates\<lparr>upd_xp := Some 10\<rparr>"]
  show ?thesis by (auto simp: emptyStore_def prod_eq_iff)
qed



text \<open>
  Claim C9. When the source document exists and no call is refused, the public mirror
  afterwards carries the updated experience points, gold, level, skill scores and the
  time of the write; the private profile is written when the updating user is the owner
  and none of the private profiles changes when somebody else updates.
\<close>

theorem update_writes_mirror_and_own_copy:
  assumes source: "profileAt db (if u = a then UserProfile u else PublicStudentProfile u) = Some cur"
      and get: "\<not> rejects db (GetProfile (if u = a then UserProfile u else PublicStudentProfile u))"
      and set_mirror: "\<not> rejects db (SetProfile (PublicStudentProfile u))"
      and set_own: "u = a \<longrightarrow> \<not> rejects db (SetProfile (UserProfile u))"
  shows "(let db' = snd (updateStudentProfile db u upd a)
          in (\<exists>mirror. publicStudentProfile db' u = Some mirror \<and>
                xp mirror = Some (newXP cur upd) \<and>
                gold mirror = Some (newGold cur upd) \<and>
                level mirror = Some (newLevel cur upd) \<and>
                (\<forall>k v. newSkills cur upd k = Some v \<longrightarrow> skillOf mirror k = Some v) \<and>
                lastUpdate mirror = Some (Time (serverTime db))) \<and>
             (u = a \<longrightarrow> userProfile db' u =
                Some (resolveTimestamp (serverTime db + 1) (updatedProfile cur upd))) \<and>
             (u \<noteq> a \<longrightarrow> userProfile db' = userProfile db))"
proof (cases "u = a")
  case True
  let ?w = "resolveTimestamp (serverTime db) (updatedProfile cur upd)"
  let ?mirror = "case publicStudentProfile db u of None \<Rightarrow> ?w | Some old \<Rightarrow> mergeFields old ?w"
  from True source get set_mirror set_own
  have run: "updateStudentProfile db u upd a =
      (Returned,
       db\<lparr>publicStudentProfile := (publicStudentProfile db)(u \<mapsto> ?mirror),
           userProfile := (userProfile db)(u \<mapsto>
             resolveTimestamp (serverTime db + 1) (updatedProfile cur upd)),
           serverTime := serverTime db + 2\<rparr>)"
    using updateStudentProfile_owner[of db u cur upd] by (simp add: profileAt_def)
  have "xp ?mirror = Some (newXP cur upd)" "gold ?mirror = Some (newGold cur upd)"
       "level ?mirror = Some (newLevel cur upd)" "lastUpdate ?mirror = Some (Time (serverTime db))"
       "\<forall>k v. newSkills cur upd k = Some v \<longrightarrow> skillOf ?mirror k = Some v"
    using written_has_update[where stored = "publicStudentProfile db u" and t = "serverTime db"
        and cur = cur and upd = upd]
    unfolding Let_def by blast+
  then show ?thesis unfolding Let_def run snd_conv using True by simp
next
  case False
  let ?w = "resolveTimestamp (serverTime db) (updatedProfile cur upd)"
  from False source get set_mirror
  have run: "updateStudentProfile db u upd a =
      (Returned,
       db\<lparr>publicStudentProfile := (publicStudentProfile db)(u \<mapsto> ?w),
           serverTime := serverTime db + 1\<rparr>)"
    using updateStudentProfile_other[of a u db cur upd] by (simp add: profileAt_def)
  have "xp ?w = Some (newXP cur upd)" "gold ?w = Some (newGold cur upd)"
       "level ?w = Some (newLevel cur upd)" "lastUpdate ?w = Some (Time (serverTime db))"
       "\<forall>k v. newSkills cur upd k = Some v \<longrightarrow> skillOf ?w k = Some v"
    by (simp_all add: resolved_update_fields skillOf_def)
  then show ?thesis unfolding Let_def run snd_conv using False by simp
qed


theorem update_writes_mirror_and_own_copy_witness:
  "(let by_teacher = snd (updateStudentProfile classStore ''s1'' (noUpdates\<lparr>upd_xp := Some 10\<rparr>) ''t1'');
        by_owner = snd (updateStudentProfile classStore ''s1'' (noUpdates\<lparr>upd_xp := Some 10\<rparr>) ''s1'')
    in userProfile by_teacher = userProfile classStore \<and>
       (\<exists>mirror. publicStudentProfile by_teacher ''s1'' = Some mirror \<and> xp mirror = Some 105) \<and>
       (\<exists>mirror. publicStudentProfile by_owner ''s1'' = Some mirror \<and> xp mirror = Some 105) \<and>
       userProfile by_owner ''s1'' =
         Some (resolveTimestamp 1 (updatedProfile studentDoc (noUpdates\<lparr>upd_xp := Some 10\<rparr>))))"
proof -
  let ?upd = "noUpdates\<lparr>upd_xp := Some 10\<rparr>"
  let ?mirror = "studentDoc\<lparr>isDeleted := Some False\<rparr>"
  have t1: "profileAt classStore (if ''s1'' = ''t1'' then UserProfile ''s1'' else PublicStudentProfile ''s1'') = Some ?mirror"
    by (simp add: profileAt_def classStore_def emptyStore_def)
  have t2: "\<not> rejects classStore (GetProfile (if ''s1'' = ''t1'' then UserProfile ''s1'' else PublicStudentProfile ''s1''))"
    by (simp add: classStore_def emptyStore_def)
  have t3: "\<not> rejects classStore (SetProfile (PublicStudentProfile ''s1''))"
    by (simp add: classStore_def emptyStore_def)
  have t4: "''s1'' = ''t1'' \<longrightarrow> \<not> rejects classStore (SetProfile (UserProfile ''s1''))"
    by simp
  have o1: "profileAt classStore (if ''s1'' = ''s1'' then UserProfile ''s1'' else PublicStudentProfile ''s1'') = Some studentDoc"
    by (simp add: profileAt_def classStore_def emptyStore_def)
  have o2: "\<not> rejects classStore (GetProfile (if ''s1'' = ''s1'' then UserProfile ''s1'' else PublicStudentProfile ''s1''))"
    by (simp add: classStore_def emptyStore_def)
  have o4: "''s1'' = ''s1'' \<longrightarrow> \<not> rejects classStore (SetProfile (UserProfile ''s1''))"
    by (simp add: classStore_def emptyStore_def)
  have x1: "newXP ?mirror ?upd = 105" and x2: "newXP studentDoc ?upd = 105"
    by (simp_all add: newXP_def studentDoc_def noFields_def noUpdates_def)
  have time: "serverTime classStore = 0" by (simp add: classStore_def emptyStore_def)
  from update_writes_mirror_and_own_copy[OF t1 t2 t3 t4, of ?upd]
       update_writes_mirror_and_own_copy[OF o1 o2 t3 o4, of ?upd]
  show ?thesis unfolding Let_def x1 x2 time by auto
qed

text \<open>
  Claim C10. The credentials match the account table and no call is refused. Then the
  login succeeds with the role of the matching table, and the private profile of the
  signed-in user afterwards has 0 experience points, 0 gold, level 1 and 0 for each of
  the six skills, whatever it held before; of a profile stored before, the fields the
  payload lacks (update time, deletion flag, further fields, skills other than the six)
  are kept. For a student the public mirror is reset in the same way; for a teacher no
  mirror document changes.
\<close>

theorem login_resets_progress:
  assumes "map_of studentAccounts inputID = Some inputPassword \<or>
           map_of teacherAccounts inputID = Some inputPassword"
      and "\<forall>q. \<not> rejects db q"
  shows "(let r = (if map_of studentAccounts inputID = Some inputPassword then ''student''
                   else ''teacher'');
              db' = snd (login db (Some uid) inputID inputPassword)
          in fst (login db (Some uid) inputID inputPassword) = Success r \<and>
             (\<exists>own. userProfile db' uid = Some own \<and>
                xp own = Some 0 \<and> gold own = Some 0 \<and> level own = Some 1 \<and>
                skillOf own skill_literacy = Some 0 \<and> skillOf own skill_numeracy = Some 0 \<and>
                skillOf own skill_creativity = Some 0 \<and> skillOf own skill_responsibility = Some 0 \<and>
                skillOf own skill_problem_solving = Some 0 \<and>
                skillOf own skill_self_directed = Some 0 \<and>
                (\<forall>old. userProfile db uid = Some old \<longrightarrow>
                   lastUpdate own = lastUpdate old \<and> isDeleted own = isDeleted old \<and>
                   extra own = extra old \<and>
                   (\<forall>k. initialSkills k = None \<longrightarrow> skillOf own k = skillOf old k))) \<and>
             (r = ''student'' \<longrightarrow>
                (\<exists>mirror. publicStudentProfile db' uid = Some mirror \<and>
                   xp mirror = Some 0 \<and> gold mirror = Some 0 \<and> level mirror = Some 1 \<and>
                   skillOf mirror skill_literacy = Some 0 \<and> skillOf mirror skill_numeracy = Some 0 \<and>
                   skillOf mirror skill_creativity = Some 0 \<and>
                   skillOf mirror skill_responsibility = Some 0 \<and>
                   skillOf mirror skill_problem_solving = Some 0 \<and>
                   skillOf mirror skill_self_directed = Some 0)) \<and>
             (r \<noteq> ''student'' \<longrightarrow> publicStudentProfile db' = publicStudentProfile db))"
proof -
  let ?r = "if map_of studentAccounts inputID = Some inputPassword then ''student'' else ''teacher''"
  let ?payload = "userProfileData uid ?r inputID"
  let ?shared = "?payload\<lparr>lastUpdate := Some ServerTimestamp, isDeleted := Some False\<rparr>"
  let ?own = "case userProfile db uid of
                None \<Rightarrow> resolveTimestamp (serverTime db) ?payload
              | Some old \<Rightarrow> mergeFields old (resolveTimestamp (serverTime db) ?payload)"
  let ?mirror = "case publicStudentProfile db uid of
                   None \<Rightarrow> resolveTimestamp (serverTime db + 1) ?shared
                 | Some old \<Rightarrow> mergeFields old (resolveTimestamp (serverTime db + 1) ?shared)"
  from assms(1) have role: "decideRole inputID inputPassword = Inr ?r"
    by (auto simp: decideRole_def)
  note run = login_accepted[OF role assms(2), of uid]
  have own_fields: "xp ?own = Some 0 \<and> gold ?own = Some 0 \<and> level ?own = Some 1 \<and>
      skillOf ?own skill_literacy = Some 0 \<and> skillOf ?own skill_numeracy = Some 0 \<and>
      skillOf ?own skill_creativity = Some 0 \<and> skillOf ?own skill_responsibility = Some 0 \<and>
      skillOf ?own skill_problem_solving = Some 0 \<and> skillOf ?own skill_self_directed = Some 0"
    using login_payload_written[where payload = ?payload and stored = "userProfile db uid"
        and t = "serverTime db"]
    by (simp add: userProfileData_def Let_def)
  have mirror_fields: "xp ?mirror = Some 0 \<and> gold ?mirror = Some 0 \<and> level ?mirror = Some 1 \<and>
      skillOf ?mirror skill_literacy = Some 0 \<and> skillOf ?mirror skill_numeracy = Some 0 \<and>
      skillOf ?mirror skill_creativity = Some 0 \<and> skillOf ?mirror skill_responsibility = Some 0 \<and>
      skillOf ?mirror skill_problem_solving = Some 0 \<and> skillOf ?mirror skill_self_directed = Some 0"
    using login_payload_written[where payload = ?shared and stored = "publicStudentProfile db uid"
        and t = "serverTime db + 1"]
    by (simp add: userProfileData_def Let_def)
  have kept: "\<forall>old. userProfile db uid = Some old \<longrightarrow>
      lastUpdate ?own = lastUpdate old \<and> isDeleted ?own = isDeleted old \<and> extra ?own = extra old \<and>
      (\<forall>k. initialSkills k = None \<longrightarrow> skillOf ?own k = skillOf old k)"
    using login_payload_kept[where payload = ?payload and t = "serverTime db"]
    by (auto simp: userProfileData_def)
  have own_doc: "userProfile (snd (login db (Some uid) inputID inputPassword)) uid = Some ?own"
    unfolding run by (simp add: storeProfile_def Let_def)
  have mirror_doc: "?r = ''student'' \<longrightarrow>
      publicStudentProfile (snd (login db (Some uid) inputID inputPassword)) uid = Some ?mirror"
    unfolding run by (simp add: storeProfile_def Let_def)
  have mirror_same: "?r \<noteq> ''student'' \<longrightarrow>
      publicStudentProfile (snd (login db (Some uid) inputID inputPassword)) = publicStudentProfile db"
    unfolding run by (simp add: storeProfile_def Let_def)
  have ended: "fst (login db (Some uid) inputID inputPassword) = Success ?r"
    unfolding run by simp
  show ?thesis
    unfolding Let_def using ended own_doc own_fields kept mirror_doc mirror_fields mirror_same
    by blast
qed


theorem login_resets_progress_witness:
  "userProfile classStore ''s1'' = Some studentDoc \<and> xp studentDoc = Some 95 \<and>
   fst (login classStore (Some ''s1'') kim_daesu ''1024'') = Success ''student'' \<and>
   (\<exists>own. userProfile (snd (login classStore (Some ''s1'') kim_daesu ''1024'')) ''s1'' = Some own \<and>
      xp own = Some 0 \<and> gold own = Some 0 \<and> level own = Some 1 \<and>
      skillOf own skill_literacy = Some 0) \<and>
   (\<exists>mirror. publicStudentProfile (snd (login classStore (Some ''s1'') kim_daesu ''1024'')) ''s1''
        = Some mirror \<and> xp mirror = Some 0)"
proof -
  have account: "map_of studentAccounts kim_daesu = Some ''1024''"
    by (simp add: studentAccounts_def)
  then have h1: "map_of studentAccounts kim_daesu = Some ''1024'' \<or>
      map_of teacherAccounts kim_daesu = Some ''1024''" by simp
  have h2: "\<forall>q. \<not> rejects classStore q"
    by (simp add: classStore_def emptyStore_def)
  have stored: "userProfile classStore ''s1'' = Some studentDoc" "xp studentDoc = Some 95"
    by (simp_all add: classStore_def emptyStore_def studentDoc_def noFields_def)
  from login_resets_progress[OF h1 h2, of "''s1''"] stored
  show ?thesis unfolding Let_def by (simp add: account) blast
qed

end
